theory Spec2Isabelle
  imports Main "HOL-Library.AList"
begin

section \<open>The mcp.run client: install cache, plugin cache and plugin instantiation\<close>

text \<open>
  A shallow embedding of \<^verbatim>\<open>src/mcp_run/client.py\<close>: the methods \<^verbatim>\<open>Client.__init__\<close>,
  \<^verbatim>\<open>Client.clear_cache\<close>, \<^verbatim>\<open>Client.list_installs\<close> and \<^verbatim>\<open>Client.plugin\<close>.

  Python objects that are mutated or compared by identity live in explicit stores, indexed by
  addresses: the \<^verbatim>\<open>Servlet\<close> records, the \<^verbatim>\<open>InstalledPlugin\<close> instances and the
  \<^verbatim>\<open>settings["config"]\<close> dictionaries. The two caches are Python dicts; they are association
  lists here, in insertion order, read with \<open>map_of\<close>, written with \<open>AList.update\<close> and
  \<open>AList.delete\<close>. Every \<^verbatim>\<open>raise\<close> is a value \<open>Inl e\<close>; a method returns its result together
  with the client as it is left, also when it raises.
\<close>

subsection \<open>Values\<close>

type_synonym addr = nat

text \<open>Naive \<^verbatim>\<open>datetime\<close> values, counted in microseconds (the resolution of \<^verbatim>\<open>datetime\<close>).\<close>

type_synonym time = int

definition timedelta :: "int \<Rightarrow> int \<Rightarrow> time" where
  "timedelta minutes seconds = (minutes * 60 + seconds) * 1000000"

type_synonym bytes = string

text \<open>An \<^verbatim>\<open>ext.Function\<close> is opaque to the client; a name stands for it.\<close>

type_synonym ext_function = string

type_synonym wasm_module = "(string \<times> bytes) list"

datatype json =
    JNull
  | JBool bool
  | JNum int
  | JStr string
  | JArr "json list"
  | JObj "(string \<times> json) list"

datatype error =
    TransportError
  | HTTPError nat
  | JSONDecodeError
  | KeyError string
  | TypeError
  | AttributeError
  | SlugError
  | PluginError

text \<open>\<^verbatim>\<open>x[key]\<close> on a decoded JSON value: only a dict can be subscripted with a string.\<close>

fun subscript :: "json \<Rightarrow> string \<Rightarrow> error + json" where
  "subscript (JObj kvs) k = (case map_of kvs k of None \<Rightarrow> Inl (KeyError k) | Some v \<Rightarrow> Inr v)"
| "subscript _ k = Inl TypeError"

text \<open>\<^verbatim>\<open>x.get(key, default)\<close>: only a dict has the method.\<close>

fun get_default :: "json \<Rightarrow> string \<Rightarrow> json \<Rightarrow> error + json" where
  "get_default (JObj kvs) k d = (case map_of kvs k of None \<Rightarrow> Inr d | Some v \<Rightarrow> Inr v)"
| "get_default _ k d = Inl AttributeError"

text \<open>The values of an argument declared \<^verbatim>\<open>bool | None\<close>, Python's truth value and \<^verbatim>\<open>or\<close>.\<close>

datatype pyflag = PyNone | PyBool bool

fun truthy :: "pyflag \<Rightarrow> bool" where
  "truthy PyNone = False"
| "truthy (PyBool b) = b"

definition py_or :: "pyflag \<Rightarrow> pyflag \<Rightarrow> pyflag" where
  "py_or a b = (if truthy a then a else b)"

subsection \<open>Records of \<^verbatim>\<open>types.py\<close> and \<^verbatim>\<open>plugin.py\<close>\<close>

text \<open>
  \<^verbatim>\<open>Tool\<close> and \<^verbatim>\<open>Servlet\<close> are declared in \<^verbatim>\<open>types.py\<close>, which is not under \<^verbatim>\<open>src/\<close>;
  their fields are the keyword arguments \<^verbatim>\<open>list_installs\<close> constructs them with, and
  \<^verbatim>\<open>content\<close>, which \<^verbatim>\<open>plugin\<close> tests against \<^verbatim>\<open>None\<close> before it was ever assigned.

  \<^verbatim>\<open>settings\<close> is the decoded \<^verbatim>\<open>install["settings"]\<close> dict. Its member \<^verbatim>\<open>"config"\<close> is a dict
  object of its own, that \<^verbatim>\<open>plugin\<close> hands on to the manifest and writes into: it is kept as
  a reference \<open>settings_config\<close> into the store of dicts (\<open>None\<close> when the key is absent); the
  other members, which are only read, are held by value in \<open>settings\<close>.
\<close>

record tool =
  tool_name :: string
  description :: string
  input_schema :: json
  tool_servlet :: addr

record servlet =
  binding_id :: string
  content_addr :: string
  name :: string
  slug :: "string \<times> string"
  settings :: "(string \<times> json) list"
  settings_config :: "addr option"
  tools :: "(string \<times> tool) list"
  has_oauth :: bool
  content :: "bytes option"

text \<open>
  What \<^verbatim>\<open>ext.Plugin(manifest, wasi=wasi, functions=functions)\<close> is given. The manifest's
  \<^verbatim>\<open>"config"\<close> is a reference (see \<open>plugin_manifest\<close>); the constructor reads the dict behind
  it, so the runtime holds its entries as they are at construction.
\<close>

record manifest =
  wasm :: "wasm_module list"
  allowed_paths :: json
  allowed_hosts :: json
  config :: addr

record runtime =
  rt_wasm :: "wasm_module list"
  rt_allowed_paths :: json
  rt_allowed_hosts :: json
  rt_config :: "(string \<times> json) list"
  rt_wasi :: pyflag
  rt_functions :: "ext_function list"

text \<open>
  Modelled from the spec: \<^verbatim>\<open>InstalledPlugin\<close> (\<^verbatim>\<open>plugin.py\<close>, not under \<^verbatim>\<open>src/\<close>) "wraps one
  opaque Runtime handle, the ServletRecord it was built from, and a createdAt timestamp",
  with "createdAt = now": \<open>timestamp\<close> is the attribute \<^verbatim>\<open>_timestamp\<close> that \<^verbatim>\<open>plugin\<close> reads.
\<close>

record installed_plugin =
  ip_install :: addr
  ip_plugin :: runtime
  timestamp :: time

subsection \<open>The Registry Gateway and the other collaborators\<close>

text \<open>
  \<^verbatim>\<open>requests.get\<close> either raises (a transport failure) or returns a response, of which the
  client reads the status code and the payload.
\<close>

datatype 'a http = Transport_failure | Response nat 'a

text \<open>
  The payload of the OAuth endpoint, as \<^verbatim>\<open>res.json()["oauth_info"]\<close> and the two later
  subscripts tell it apart: not JSON; no key \<^verbatim>\<open>"oauth_info"\<close>; \<^verbatim>\<open>null\<close>; an object whose keys
  \<^verbatim>\<open>"config_name"\<close> and \<^verbatim>\<open>"access_token"\<close> are present or not.
\<close>

datatype oauth_doc =
    Oauth_not_json
  | Oauth_no_key
  | Oauth_null
  | Oauth_info "string option" "string option"

record tool_wire =
  tw_name :: "string option"
  tw_description :: "string option"
  tw_inputSchema :: "json option"

text \<open>\<^verbatim>\<open>servlet.meta.schema\<close>: either an object with the key \<^verbatim>\<open>"tools"\<close>, or one tool object.\<close>

datatype schema_wire = Schema_tools "tool_wire list" | Schema_single tool_wire

record binding_wire =
  bw_id :: "string option"
  bw_contentAddress :: "string option"

text \<open>\<open>sw_meta\<close>: \<open>None\<close> without the key \<^verbatim>\<open>"meta"\<close>, \<open>Some None\<close> without \<^verbatim>\<open>"schema"\<close> in it.\<close>

record servlet_wire =
  sw_meta :: "schema_wire option option"
  sw_slug :: "string option"
  sw_has_client :: "bool option"

record settings_wire =
  st_members :: "(string \<times> json) list"
  st_config :: "(string \<times> json) list option"

text \<open>One element of \<^verbatim>\<open>data["installs"]\<close>; \<open>None\<close> is a key that is absent.\<close>

record install_wire =
  iw_binding :: "binding_wire option"
  iw_servlet :: "servlet_wire option"
  iw_settings :: "settings_wire option"
  iw_name :: "string option"

text \<open>The payload of the installations endpoint: the \<^verbatim>\<open>Date\<close> header and the body.\<close>

datatype installs_doc =
    Installs_not_json
  | Installs_no_key
  | Installs "install_wire list"

text \<open>
  What the world answers during one call. \<open>now\<close> is the reading of \<^verbatim>\<open>datetime.now()\<close> in
  the expiry test of \<^verbatim>\<open>plugin\<close>, \<open>built\<close> the one \<^verbatim>\<open>InstalledPlugin\<close> stamps a new instance
  with. \<open>ext_Plugin_raises\<close> tells whether the Extism constructor rejects a runtime, and
  \<open>ProfileSlug_parse\<close> is \<^verbatim>\<open>ProfileSlug.parse\<close> of \<^verbatim>\<open>types.py\<close>.
\<close>

record env =
  installations_response :: "string \<Rightarrow> string option \<Rightarrow> (string option \<times> installs_doc) http"
  oauth_response :: "string \<Rightarrow> string \<Rightarrow> oauth_doc http"
  content_response :: "string \<Rightarrow> bytes http"
  ext_Plugin_raises :: "runtime \<Rightarrow> bool"
  ProfileSlug_parse :: "string \<Rightarrow> error + (string \<times> string)"
  now :: time
  built :: time

subsection \<open>The client\<close>

text \<open>The HTTP requests the client issues, with what identifies them.\<close>

datatype request =
    Get_installations string "string option"
  | Get_oauth string string
  | Get_content string

text \<open>
  The fields of \<^verbatim>\<open>Client\<close> that the modelled methods use, the three object stores, the next
  free address, and \<open>requests\<close>, the log of the \<^verbatim>\<open>requests.get\<close> calls made so far.
  \<open>profile\<close> is \<^verbatim>\<open>self.config.profile\<close>. A scope is the \<^verbatim>\<open>ProfileSlug\<close> that
  \<^verbatim>\<open>_fix_profile\<close> returns, written as a string.
\<close>

record client =
  profile :: string
  install_cache :: "(string \<times> addr) list"
  plugin_cache :: "(string \<times> addr) list"
  last_installations_request :: "(string \<times> string option) list"
  servlets :: "addr \<Rightarrow> servlet"
  plugins :: "addr \<Rightarrow> installed_plugin"
  dicts :: "addr \<Rightarrow> (string \<times> json) list"
  next_addr :: addr
  requests :: "request list"

definition raise_for_status :: "nat \<Rightarrow> bool" where
  "raise_for_status status \<longleftrightarrow> 400 \<le> status \<and> status < 600"

definition clear_cache :: "client \<Rightarrow> client" where
  "clear_cache s =
     s\<lparr>last_installations_request := [], install_cache := [], plugin_cache := []\<rparr>"

text \<open>
  \<^verbatim>\<open>Client.__init__\<close>: both caches and the table of \<^verbatim>\<open>Date\<close> headers start empty. No object
  has been created yet; the stores are total, so they hold placeholders.
\<close>

definition no_servlet :: servlet where
  "no_servlet =
     \<lparr>binding_id = [], content_addr = [], name = [], slug = ([], []), settings = [],
      settings_config = None, tools = [], has_oauth = False, content = None\<rparr>"

definition no_plugin :: installed_plugin where
  "no_plugin =
     \<lparr>ip_install = 0,
      ip_plugin = \<lparr>rt_wasm = [], rt_allowed_paths = JNull, rt_allowed_hosts = JNull,
                   rt_config = [], rt_wasi = PyNone, rt_functions = []\<rparr>,
      timestamp = 0\<rparr>"

definition new_client :: "string \<Rightarrow> client" where
  "new_client p =
     \<lparr>profile = p, install_cache = [], plugin_cache = [], last_installations_request = [],
      servlets = (\<lambda>a. no_servlet), plugins = (\<lambda>a. no_plugin), dicts = (\<lambda>a. []),
      next_addr = 0, requests = []\<rparr>"

subsection \<open>\<^verbatim>\<open>Client.plugin\<close>\<close>

text \<open>Lines 653 to 663: the OAuth fetch, made whenever the record has \<^verbatim>\<open>has_oauth\<close>.\<close>

definition fetch_oauth ::
  "env \<Rightarrow> client \<Rightarrow> servlet \<Rightarrow> (error + (string option \<times> string option) option) \<times> client" where
  "fetch_oauth e s install =
     (if has_oauth install then
        (let s' = s\<lparr>requests := requests s @ [Get_oauth (profile s) (name install)]\<rparr> in
         case oauth_response e (profile s) (name install) of
           Transport_failure \<Rightarrow> (Inl TransportError, s')
         | Response status doc \<Rightarrow>
             if raise_for_status status then (Inl (HTTPError status), s')
             else (case doc of
                     Oauth_not_json \<Rightarrow> (Inl JSONDecodeError, s')
                   | Oauth_no_key \<Rightarrow> (Inl (KeyError ''oauth_info''), s')
                   | Oauth_null \<Rightarrow> (Inr None, s')
                   | Oauth_info cn tok \<Rightarrow> (Inr (Some (cn, tok)), s')))
      else (Inr None, s))"

text \<open>
  Lines 666 to 679: the cache lookup. \<open>Some c\<close> is the early \<^verbatim>\<open>return cached\<close>; an expired
  entry is deleted and the method goes on.
\<close>

definition cache_lookup :: "env \<Rightarrow> client \<Rightarrow> string \<Rightarrow> bool \<Rightarrow> addr option \<times> client" where
  "cache_lookup e s nm ok =
     (if ok then
        (case map_of (plugin_cache s) nm of
           None \<Rightarrow> (None, s)
         | Some cached \<Rightarrow>
             if timestamp (plugins s cached) + timedelta 4 30 > now e then (Some cached, s)
             else (None, s\<lparr>plugin_cache := AList.delete nm (plugin_cache s)\<rparr>))
      else (None, s))"

text \<open>
  Lines 680 to 690: the content fetch. The body of the response is stored on the record
  whatever the status code; the result is \<^verbatim>\<open>install.content\<close> as it then is.
\<close>

definition fetch_content :: "env \<Rightarrow> client \<Rightarrow> addr \<Rightarrow> (error + bytes) \<times> client" where
  "fetch_content e s r =
     (let install = servlets s r in
      case content install of
        Some b \<Rightarrow> (Inr b, s)
      | None \<Rightarrow>
          (let s' = s\<lparr>requests := requests s @ [Get_content (content_addr install)]\<rparr> in
           case content_response e (content_addr install) of
             Transport_failure \<Rightarrow> (Inl TransportError, s')
           | Response status body \<Rightarrow>
               (Inr body, s'\<lparr>servlets := (servlets s')(r := install\<lparr>content := Some body\<rparr>)\<rparr>)))"

text \<open>
  Lines 691 to 700: the manifest. \<^verbatim>\<open>install.settings.get("config", {})\<close> is the record's own
  config dict when it has one, and a new empty dict otherwise.
\<close>

definition plugin_manifest ::
  "client \<Rightarrow> servlet \<Rightarrow> bytes \<Rightarrow> wasm_module list option \<Rightarrow> (error + manifest) \<times> client" where
  "plugin_manifest s install data wasm_arg =
     (case map_of (settings install) ''permissions'' of
        None \<Rightarrow> (Inl (KeyError ''permissions''), s)
      | Some perm \<Rightarrow>
          (let wasm_modules =
                 [[(''data'', data)]] @ (case wasm_arg of None \<Rightarrow> [] | Some ws \<Rightarrow> ws) in
           case subscript perm ''filesystem'' of
             Inl err \<Rightarrow> (Inl err, s)
           | Inr fs \<Rightarrow>
               (case get_default fs ''volumes'' (JObj []) of
                  Inl err \<Rightarrow> (Inl err, s)
                | Inr paths \<Rightarrow>
                    (case subscript perm ''network'' of
                       Inl err \<Rightarrow> (Inl err, s)
                     | Inr nw \<Rightarrow>
                         (case get_default nw ''domains'' (JArr []) of
                            Inl err \<Rightarrow> (Inl err, s)
                          | Inr hosts \<Rightarrow>
                              (case settings_config install of
                                 Some a \<Rightarrow>
                                   (Inr \<lparr>wasm = wasm_modules, allowed_paths = paths,
                                         allowed_hosts = hosts, config = a\<rparr>, s)
                               | None \<Rightarrow>
                                   (Inr \<lparr>wasm = wasm_modules, allowed_paths = paths,
                                         allowed_hosts = hosts, config = next_addr s\<rparr>,
                                    s\<lparr>dicts := (dicts s)(next_addr s := []),
                                      next_addr := Suc (next_addr s)\<rparr>)))))))"

text \<open>
  Lines 702 and 703: \<^verbatim>\<open>manifest["config"][oauth["config_name"]] = oauth["access_token"]\<close>.
  Python evaluates the right-hand side first, then the subscript.
\<close>

definition inject_oauth ::
  "client \<Rightarrow> manifest \<Rightarrow> (string option \<times> string option) option \<Rightarrow> (error + unit) \<times> client" where
  "inject_oauth s m oauth =
     (case oauth of
        None \<Rightarrow> (Inr (), s)
      | Some (cn, tok) \<Rightarrow>
          (case tok of
             None \<Rightarrow> (Inl (KeyError ''access_token''), s)
           | Some access_token \<Rightarrow>
               (case cn of
                  None \<Rightarrow> (Inl (KeyError ''config_name''), s)
                | Some config_name \<Rightarrow>
                    (Inr (),
                     s\<lparr>dicts := (dicts s)(config m :=
                          AList.update config_name (JStr access_token) (dicts s (config m)))\<rparr>))))"

text \<open>The arguments of \<^verbatim>\<open>ext.Plugin\<close>, with the manifest's config dict read from the store.\<close>

definition ext_Plugin :: "client \<Rightarrow> manifest \<Rightarrow> pyflag \<Rightarrow> ext_function list \<Rightarrow> runtime" where
  "ext_Plugin s m wasi functions =
     \<lparr>rt_wasm = wasm m, rt_allowed_paths = allowed_paths m, rt_allowed_hosts = allowed_hosts m,
      rt_config = dicts s (config m), rt_wasi = wasi, rt_functions = functions\<rparr>"

text \<open>Lines 705 to 712: the runtime, the new instance and the cache write.\<close>

definition instantiate ::
  "env \<Rightarrow> client \<Rightarrow> addr \<Rightarrow> manifest \<Rightarrow> pyflag \<Rightarrow> ext_function list option \<Rightarrow> bool \<Rightarrow>
   (error + addr) \<times> client" where
  "instantiate e s r m wasi functions_arg ok =
     (let functions = (case functions_arg of None \<Rightarrow> [] | Some fs \<Rightarrow> fs);
          rt = ext_Plugin s m wasi functions
      in if ext_Plugin_raises e rt then (Inl PluginError, s)
         else
           (let p = next_addr s;
                s' = s\<lparr>plugins := (plugins s)(p :=
                         \<lparr>ip_install = r, ip_plugin = rt, timestamp = built e\<rparr>),
                       next_addr := Suc p\<rparr>
            in if ok
               then (Inr p, s'\<lparr>plugin_cache :=
                                 AList.update (name (servlets s' r)) p (plugin_cache s')\<rparr>)
               else (Inr p, s')))"

text \<open>Lines 680 to 712, after the cache lookup found nothing to return.\<close>

definition build ::
  "env \<Rightarrow> client \<Rightarrow> addr \<Rightarrow> (string option \<times> string option) option \<Rightarrow> pyflag \<Rightarrow>
   ext_function list option \<Rightarrow> wasm_module list option \<Rightarrow> bool \<Rightarrow> (error + addr) \<times> client" where
  "build e s r oauth wasi functions_arg wasm_arg ok =
     (case fetch_content e s r of
        (Inl err, s1) \<Rightarrow> (Inl err, s1)
      | (Inr data, s1) \<Rightarrow>
          (case plugin_manifest s1 (servlets s1 r) data wasm_arg of
             (Inl err, s2) \<Rightarrow> (Inl err, s2)
           | (Inr m, s2) \<Rightarrow>
               (case inject_oauth s2 m oauth of
                  (Inl err, s3) \<Rightarrow> (Inl err, s3)
                | (Inr u, s3) \<Rightarrow> instantiate e s3 r m wasi functions_arg ok)))"

text \<open>Line 665: \<^verbatim>\<open>cache and wasi and functions is None and wasm is None\<close>.\<close>

definition cache_ok ::
  "bool \<Rightarrow> pyflag \<Rightarrow> ext_function list option \<Rightarrow> wasm_module list option \<Rightarrow> bool" where
  "cache_ok cache wasi functions_arg wasm_arg \<longleftrightarrow>
     cache \<and> truthy wasi \<and> functions_arg = None \<and> wasm_arg = None"

text \<open>
  \<^verbatim>\<open>Client.plugin(install, cache, wasi, functions, wasm)\<close>; \<open>r\<close> is the address of the
  \<^verbatim>\<open>Servlet\<close> passed as \<^verbatim>\<open>install\<close>.
\<close>

definition plugin ::
  "env \<Rightarrow> client \<Rightarrow> addr \<Rightarrow> bool \<Rightarrow> pyflag \<Rightarrow> ext_function list option \<Rightarrow>
   wasm_module list option \<Rightarrow> (error + addr) \<times> client" where
  "plugin e s r cache wasi_arg functions_arg wasm_arg =
     (case fetch_oauth e s (servlets s r) of
        (Inl err, s1) \<Rightarrow> (Inl err, s1)
      | (Inr oauth, s1) \<Rightarrow>
          (let wasi = py_or wasi_arg (PyBool True);
               ok = cache_ok cache wasi functions_arg wasm_arg
           in case cache_lookup e s1 (name (servlets s1 r)) ok of
                (Some cached, s2) \<Rightarrow> (Inr cached, s2)
              | (None, s2) \<Rightarrow> build e s2 r oauth wasi functions_arg wasm_arg ok))"

subsection \<open>\<^verbatim>\<open>Client.list_installs\<close>\<close>

text \<open>
  Lines 505 to 511: the tools of one install, each with a back-reference \<open>a\<close> to the record.
  In \<^verbatim>\<open>install.tools[tool["name"]] = Tool(...)\<close> the constructor's arguments are evaluated
  first, in the order written.
\<close>

fun parse_tools :: "addr \<Rightarrow> tool_wire list \<Rightarrow> (string \<times> tool) list \<Rightarrow> error + (string \<times> tool) list" where
  "parse_tools a [] acc = Inr acc"
| "parse_tools a (t # ts) acc =
     (case tw_name t of
        None \<Rightarrow> Inl (KeyError ''name'')
      | Some n \<Rightarrow>
          (case tw_description t of
             None \<Rightarrow> Inl (KeyError ''description'')
           | Some d \<Rightarrow>
               (case tw_inputSchema t of
                  None \<Rightarrow> Inl (KeyError ''inputSchema'')
                | Some i \<Rightarrow>
                    parse_tools a ts
                      (AList.update n
                         \<lparr>tool_name = n, description = d, input_schema = i, tool_servlet = a\<rparr>
                         acc))))"

text \<open>
  Lines 490 to 504: the record of one install, without its tools, and the tool objects of
  its schema. The subscripts are evaluated in the order of the source, so the first absent
  key is the one reported. \<open>cfg\<close> is the address of the decoded \<^verbatim>\<open>settings["config"]\<close>.
\<close>

definition parse_install ::
  "env \<Rightarrow> install_wire \<Rightarrow> addr option \<Rightarrow> error + (servlet \<times> tool_wire list)" where
  "parse_install e w cfg =
     (case iw_binding w of
        None \<Rightarrow> Inl (KeyError ''binding'')
      | Some binding \<Rightarrow>
     (case iw_servlet w of
        None \<Rightarrow> Inl (KeyError ''servlet'')
      | Some sv \<Rightarrow>
     (case sw_meta sv of
        None \<Rightarrow> Inl (KeyError ''meta'')
      | Some None \<Rightarrow> Inl (KeyError ''schema'')
      | Some (Some schema) \<Rightarrow>
     (let tool_list = (case schema of Schema_tools ts \<Rightarrow> ts | Schema_single t \<Rightarrow> [t]) in
      case bw_id binding of
        None \<Rightarrow> Inl (KeyError ''id'')
      | Some bid \<Rightarrow>
     (case bw_contentAddress binding of
        None \<Rightarrow> Inl (KeyError ''contentAddress'')
      | Some ca \<Rightarrow>
     (let nm = (case iw_name w of None \<Rightarrow> [] | Some n \<Rightarrow> n) in
      case sw_slug sv of
        None \<Rightarrow> Inl (KeyError ''slug'')
      | Some sl \<Rightarrow>
     (case ProfileSlug_parse e sl of
        Inl err \<Rightarrow> Inl err
      | Inr parsed \<Rightarrow>
     (case iw_settings w of
        None \<Rightarrow> Inl (KeyError ''settings'')
      | Some st \<Rightarrow>
     (case sw_has_client sv of
        None \<Rightarrow> Inl (KeyError ''has_client'')
      | Some oa \<Rightarrow>
          Inr (\<lparr>binding_id = bid, content_addr = ca, name = nm, slug = parsed,
                settings = st_members st, settings_config = cfg, tools = [],
                has_oauth = oa, content = None\<rparr>, tool_list))))))))))"

text \<open>
  One turn of the loop of lines 489 to 515, up to the \<^verbatim>\<open>yield\<close>. The new \<^verbatim>\<open>Servlet\<close> is the
  object at the next free address and the config dict of its settings, when there is one,
  the object after it. When a subscript raises, nothing that the client can reach has
  changed.
\<close>

definition install_step :: "env \<Rightarrow> client \<Rightarrow> install_wire \<Rightarrow> error + (addr \<times> client)" where
  "install_step e s w =
     (let a = next_addr s;
          cfg = (case iw_settings w of
                   None \<Rightarrow> None
                 | Some st \<Rightarrow> (case st_config st of None \<Rightarrow> None | Some kvs \<Rightarrow> Some (Suc a)))
      in case parse_install e w cfg of
           Inl err \<Rightarrow> Inl err
         | Inr (install, tool_list) \<Rightarrow>
             (case parse_tools a tool_list [] of
                Inl err \<Rightarrow> Inl err
              | Inr ts \<Rightarrow>
                  Inr (a,
                    s\<lparr>servlets := (servlets s)(a := install\<lparr>tools := ts\<rparr>),
                      dicts := (case iw_settings w of
                                  None \<Rightarrow> dicts s
                                | Some st \<Rightarrow>
                                    (case st_config st of
                                       None \<Rightarrow> dicts s
                                     | Some kvs \<Rightarrow> (dicts s)(Suc a := kvs))),
                      next_addr := Suc (Suc a),
                      install_cache := AList.update (name install) a (install_cache s),
                      plugin_cache :=
                        (if map_of (plugin_cache s) (name install) \<noteq> None
                         then AList.delete (name install) (plugin_cache s)
                         else plugin_cache s)\<rparr>)))"

text \<open>
  The loop over \<^verbatim>\<open>data["installs"]\<close>: the records yielded, the exception that ended the
  generator if one did, and the client.
\<close>

fun install_loop :: "env \<Rightarrow> client \<Rightarrow> install_wire list \<Rightarrow> (addr list \<times> error option) \<times> client" where
  "install_loop e s [] = (([], None), s)"
| "install_loop e s (w # ws) =
     (case install_step e s w of
        Inl err \<Rightarrow> (([], Some err), s)
      | Inr (a, s') \<Rightarrow>
          (case install_loop e s' ws of
             ((ys, r), s'') \<Rightarrow> ((a # ys, r), s'')))"

text \<open>
  \<^verbatim>\<open>Client.list_installs(profile)\<close>, a generator, run until it is exhausted (as the property
  \<^verbatim>\<open>installs\<close> runs it); \<open>scope\<close> is what \<^verbatim>\<open>_fix_profile(profile)\<close> returned. The status
  \<^verbatim>\<open>301\<close> yields the values of the install cache and returns. Otherwise the \<^verbatim>\<open>Date\<close> header
  is stored before \<^verbatim>\<open>data["installs"]\<close> is read.
\<close>

definition list_installs :: "env \<Rightarrow> client \<Rightarrow> string \<Rightarrow> (addr list \<times> error option) \<times> client" where
  "list_installs e s scope =
     (let last = (case map_of (last_installations_request s) scope of
                    None \<Rightarrow> None
                  | Some v \<Rightarrow> v);
          s1 = s\<lparr>requests := requests s @ [Get_installations scope last]\<rparr>
      in case installations_response e scope last of
           Transport_failure \<Rightarrow> (([], Some TransportError), s1)
         | Response status (date, doc) \<Rightarrow>
             if raise_for_status status then (([], Some (HTTPError status)), s1)
             else if status = 301 then ((map snd (install_cache s1), None), s1)
             else
               (case doc of
                  Installs_not_json \<Rightarrow> (([], Some JSONDecodeError), s1)
                | Installs_no_key \<Rightarrow>
                    (([], Some (KeyError ''installs'')),
                     s1\<lparr>last_installations_request :=
                          AList.update scope date (last_installations_request s1)\<rparr>)
                | Installs ws \<Rightarrow>
                    install_loop e
                      (s1\<lparr>last_installations_request :=
                           AList.update scope date (last_installations_request s1)\<rparr>)
                      ws))"

subsection \<open>A concrete servlet, client and gateway\<close>

text \<open>
  The install of the end-to-end scenario: one servlet \<^verbatim>\<open>"img"\<close> with no volumes and the
  host \<^verbatim>\<open>cdn.example.com\<close>. \<open>img_client oa cfg\<close> is a client that has listed it: the record
  is the object at address 0, with \<^verbatim>\<open>has_oauth = oa\<close>; \<open>cfg\<close> is the address of its
  \<^verbatim>\<open>settings["config"]\<close>, if it has one. The addresses below 3 are taken.
\<close>

definition img_settings :: "(string \<times> json) list" where
  "img_settings =
     [(''permissions'',
       JObj [(''filesystem'', JObj [(''volumes'', JObj [])]),
             (''network'', JObj [(''domains'', JArr [JStr ''cdn.example.com''])])])]"

definition img_servlet :: "bool \<Rightarrow> addr option \<Rightarrow> servlet" where
  "img_servlet oa cfg =
     \<lparr>binding_id = ''b1'', content_addr = ''sha256-img'', name = ''img'',
      slug = (''acme'', ''img''), settings = img_settings, settings_config = cfg,
      tools = [], has_oauth = oa, content = None\<rparr>"

definition img_client :: "bool \<Rightarrow> addr option \<Rightarrow> client" where
  "img_client oa cfg =
     (new_client ''~/default'')
       \<lparr>install_cache := [(''img'', 0)],
        servlets := (\<lambda>a. no_servlet)(0 := img_servlet oa cfg),
        next_addr := 3\<rparr>"

text \<open>
  A gateway that answers every request with success, at the clock reading \<open>t\<close>: the OAuth
  endpoint gives the token \<^verbatim>\<open>tok1\<close> for the config key \<^verbatim>\<open>API_KEY\<close>, the content endpoint
  the status \<open>st\<close> and the body \<open>body\<close>, and the install list is \<open>ws\<close>.
\<close>

definition gateway :: "time \<Rightarrow> nat \<Rightarrow> bytes \<Rightarrow> install_wire list \<Rightarrow> env" where
  "gateway t st body ws =
     \<lparr>installations_response = (\<lambda>scope last. Response 200 (Some ''Tue'', Installs ws)),
      oauth_response = (\<lambda>p n. Response 200 (Oauth_info (Some ''API_KEY'') (Some ''tok1''))),
      content_response = (\<lambda>a. Response st body),
      ext_Plugin_raises = (\<lambda>rt. False),
      ProfileSlug_parse = (\<lambda>sl. Inr ([], sl)),
      now = t, built = t\<rparr>"

text \<open>
  \<open>cached_client oa cfg t0\<close> has moreover built a plugin for it at the time \<open>t0\<close>: the
  content is on the record and the instance, the object at address 2, is in the Plugin
  Cache. \<open>used_client oa cfg\<close> is \<open>img_client oa cfg\<close> after one call of \<^verbatim>\<open>plugin\<close> at the
  time 0.
\<close>

definition img_runtime :: runtime where
  "img_runtime =
     \<lparr>rt_wasm = [[(''data'', ''wasm'')]], rt_allowed_paths = JObj [],
      rt_allowed_hosts = JArr [JStr ''cdn.example.com''], rt_config = [],
      rt_wasi = PyBool True, rt_functions = []\<rparr>"

definition cached_client :: "bool \<Rightarrow> addr option \<Rightarrow> time \<Rightarrow> client" where
  "cached_client oa cfg t0 =
     (img_client oa cfg)
       \<lparr>servlets := (\<lambda>a. no_servlet)(0 := (img_servlet oa cfg)\<lparr>content := Some ''wasm''\<rparr>),
        plugin_cache := [(''img'', 2)],
        plugins := (\<lambda>a. no_plugin)(2 :=
          \<lparr>ip_install = 0, ip_plugin = img_runtime, timestamp = t0\<rparr>)\<rparr>"

definition used_client :: "bool \<Rightarrow> addr option \<Rightarrow> client" where
  "used_client oa cfg =
     snd (plugin (gateway 0 200 ''wasm'' []) (img_client oa cfg) 0 True PyNone None None)"

subsection \<open>Coherence of the two caches\<close>

text \<open>
  Invariant (b) of the spec: every instance in the Plugin Cache was built from the record
  that the Install Cache holds under the same name.
\<close>

definition coherent :: "client \<Rightarrow> bool" where
  "coherent s \<longleftrightarrow>
     (\<forall>(n, p) \<in> set (plugin_cache s).
        map_of (install_cache s) n = Some (ip_install (plugins s p)))"

subsection \<open>A concrete install list\<close>

text \<open>
  The wire form of an install named \<open>nm\<close> with the tool \<^verbatim>\<open>compress\<close>; a client whose
  install cache also holds a servlet \<^verbatim>\<open>"old"\<close>; and a gateway that answers \<^verbatim>\<open>301\<close> to every
  conditional request and the one-element install list to a request without a token.
\<close>

definition img_wire :: "string \<Rightarrow> install_wire" where
  "img_wire nm =
     \<lparr>iw_binding = Some \<lparr>bw_id = Some ''b2'', bw_contentAddress = Some ''sha256-img2''\<rparr>,
      iw_servlet = Some
        \<lparr>sw_meta = Some (Some (Schema_tools
           [\<lparr>tw_name = Some ''compress'', tw_description = Some ''Compress an image'',
             tw_inputSchema = Some (JObj [])\<rparr>])),
         sw_slug = Some ''acme/img'', sw_has_client = Some False\<rparr>,
      iw_settings = Some \<lparr>st_members = img_settings, st_config = None\<rparr>,
      iw_name = Some nm\<rparr>"

definition two_client :: client where
  "two_client =
     (cached_client False None 0)
       \<lparr>install_cache := [(''img'', 0), (''old'', 1)],
        servlets := (\<lambda>a. no_servlet)
          (0 := (img_servlet False None)\<lparr>content := Some ''wasm''\<rparr>,
           1 := (img_servlet False None)\<lparr>name := ''old''\<rparr>)\<rparr>"

definition conditional_gateway :: env where
  "conditional_gateway =
     (gateway 1 200 ''wasm'' [])
       \<lparr>installations_response := (\<lambda>scope last.
          if last = None then Response 200 (Some ''Tue'', Installs [img_wire ''img''])
          else Response 301 (None, Installs_not_json))\<rparr>"

text \<open>
  A gateway whose content endpoint answers \<^verbatim>\<open>404\<close> with an error body, which the Extism
  constructor then rejects, and the client after one call of \<^verbatim>\<open>plugin\<close> against it; a
  gateway whose OAuth endpoint answers \<^verbatim>\<open>"oauth_info": null\<close>.
\<close>

definition broken_gateway :: env where
  "broken_gateway = (gateway 0 404 ''Not Found'' [])\<lparr>ext_Plugin_raises := (\<lambda>rt. True)\<rparr>"

definition failed_client :: client where
  "failed_client =
     snd (plugin broken_gateway (img_client False None) 0 True PyNone None None)"


text \<open>
  The client after a refresh that has replaced the record of \<^verbatim>\<open>"img"\<close> (the new record is
  the object at address 3), and the same client after a caller who still holds the old
  record, the object at address 0, has passed it to \<^verbatim>\<open>plugin\<close>.
\<close>

definition refreshed_client :: client where
  "refreshed_client =
     snd (list_installs (gateway 0 200 ''wasm'' [img_wire ''img'']) (img_client False None)
            ''~/default'')"

definition stale_client :: client where
  "stale_client =
     snd (plugin (gateway 1 200 ''wasm'' []) refreshed_client 0 True PyNone None None)"


section \<open>Properties\<close>

subsection \<open>Evaluation at the concrete client\<close>

lemmas fixture_defs = img_settings_def img_servlet_def img_client_def gateway_def new_client_def
  no_servlet_def no_plugin_def img_runtime_def cached_client_def used_client_def

lemmas plugin_defs = plugin_def fetch_oauth_def cache_lookup_def build_def fetch_content_def
  plugin_manifest_def inject_oauth_def instantiate_def ext_Plugin_def cache_ok_def py_or_def
  raise_for_status_def timedelta_def Let_def


subsection \<open>What each stage of \<^verbatim>\<open>Client.plugin\<close> leaves untouched\<close>

lemma py_or_True: "py_or w (PyBool True) = PyBool True"
  by (cases w) (auto simp: py_or_def)

lemma fetch_oauth_state:
  "snd (fetch_oauth e s i) =
     s\<lparr>requests := requests s @ (if has_oauth i then [Get_oauth (profile s) (name i)] else [])\<rparr>"
  by (simp add: fetch_oauth_def Let_def split: http.splits oauth_doc.splits)

lemma cache_lookup_state:
  "snd (cache_lookup e s nm ok) = s \<or>
   snd (cache_lookup e s nm ok) = s\<lparr>plugin_cache := AList.delete nm (plugin_cache s)\<rparr>"
  by (simp add: cache_lookup_def split: option.splits)

lemma fetch_content_frame:
  "plugins (snd (fetch_content e s r)) = plugins s"
  "plugin_cache (snd (fetch_content e s r)) = plugin_cache s"
  "next_addr (snd (fetch_content e s r)) = next_addr s"
  "dicts (snd (fetch_content e s r)) = dicts s"
  by (simp_all add: fetch_content_def Let_def split: option.splits http.splits)

lemma plugin_manifest_frame:
  "plugins (snd (plugin_manifest s i d w)) = plugins s"
  "plugin_cache (snd (plugin_manifest s i d w)) = plugin_cache s"
  "servlets (snd (plugin_manifest s i d w)) = servlets s"
  "requests (snd (plugin_manifest s i d w)) = requests s"
  by (simp_all add: plugin_manifest_def Let_def split: option.splits sum.splits)

lemma inject_oauth_frame:
  "plugins (snd (inject_oauth s m oa)) = plugins s"
  "plugin_cache (snd (inject_oauth s m oa)) = plugin_cache s"
  "servlets (snd (inject_oauth s m oa)) = servlets s"
  "requests (snd (inject_oauth s m oa)) = requests s"
  "next_addr (snd (inject_oauth s m oa)) = next_addr s"
  by (simp_all add: inject_oauth_def split: option.splits prod.splits)

subsection \<open>The stages of a build\<close>

lemma build_Inr:
  assumes "build e s r oa w f ws ok = (Inr p, s')"
  obtains data s1 m s2 s3 where
    "fetch_content e s r = (Inr data, s1)"
    "plugin_manifest s1 (servlets s1 r) data ws = (Inr m, s2)"
    "inject_oauth s2 m oa = (Inr (), s3)"
    "instantiate e s3 r m w f ok = (Inr p, s')"
  using assms by (auto simp: build_def split: prod.splits sum.splits)

lemma build_Inl:
  assumes "build e s r oa w f ws ok = (Inl err, s')"
  shows "plugin_cache s' = plugin_cache s \<and> plugins s' = plugins s"
proof -
  obtain x1 s1 where c: "fetch_content e s r = (x1, s1)" by (cases "fetch_content e s r")
  obtain x2 s2 where m: "plugin_manifest s1 (servlets s1 r) (projr x1) ws = (x2, s2)"
    by (cases "plugin_manifest s1 (servlets s1 r) (projr x1) ws")
  obtain x3 s3 where i: "inject_oauth s2 (projr x2) oa = (x3, s3)"
    by (cases "inject_oauth s2 (projr x2) oa")
  have p1: "plugins s1 = plugins s" "plugin_cache s1 = plugin_cache s"
    using fetch_content_frame[of e s r] c by simp_all
  have p2: "plugins s2 = plugins s1" "plugin_cache s2 = plugin_cache s1"
    using plugin_manifest_frame[of s1 "servlets s1 r" "projr x1" ws] m by simp_all
  have p3: "plugins s3 = plugins s2" "plugin_cache s3 = plugin_cache s2"
    using inject_oauth_frame[of s2 "projr x2" oa] i by simp_all
  have p4: "instantiate e s3 r (projr x2) w f ok = (Inl err, s') \<Longrightarrow> s' = s3"
    by (auto simp: instantiate_def Let_def split: if_splits)
  show ?thesis
    using assms c m i p1 p2 p3 p4
    by (auto simp: build_def split: sum.splits)
qed

lemma fetch_content_fields:
  "name (servlets (snd (fetch_content e s r)) a) = name (servlets s a)"
  "has_oauth (servlets (snd (fetch_content e s r)) a) = has_oauth (servlets s a)"
  "settings (servlets (snd (fetch_content e s r)) a) = settings (servlets s a)"
  "settings_config (servlets (snd (fetch_content e s r)) a) = settings_config (servlets s a)"
  "content_addr (servlets (snd (fetch_content e s r)) a) = content_addr (servlets s a)"
  by (simp_all add: fetch_content_def Let_def split: option.splits http.splits)

lemma plugin_manifest_next:
  "next_addr s \<le> next_addr (snd (plugin_manifest s i d w))"
  by (simp add: plugin_manifest_def Let_def split: option.splits sum.splits)

lemma instantiate_Inr:
  assumes "instantiate e s r m w f ok = (Inr p, s')"
  shows "p = next_addr s" "next_addr s' = Suc p"
    "plugins s' = (plugins s)(p :=
       \<lparr>ip_install = r,
        ip_plugin = ext_Plugin s m w (case f of None \<Rightarrow> [] | Some fs \<Rightarrow> fs),
        timestamp = built e\<rparr>)"
    "\<not> ext_Plugin_raises e (ext_Plugin s m w (case f of None \<Rightarrow> [] | Some fs \<Rightarrow> fs))"
    "plugin_cache s' =
       (if ok then AList.update (name (servlets s r)) p (plugin_cache s) else plugin_cache s)"
    "servlets s' = servlets s" "dicts s' = dicts s" "requests s' = requests s"
  using assms by (auto simp: instantiate_def Let_def split: if_splits)

lemma build_Inr_facts:
  assumes "build e s r oa w f ws ok = (Inr p, s')"
  shows "next_addr s \<le> p" "next_addr s' = Suc p"
    "\<forall>a. a \<noteq> p \<longrightarrow> plugins s' a = plugins s a"
    "ip_install (plugins s' p) = r" "timestamp (plugins s' p) = built e"
    "\<not> ext_Plugin_raises e (ip_plugin (plugins s' p))"
    "plugin_cache s' =
       (if ok then AList.update (name (servlets s r)) p (plugin_cache s) else plugin_cache s)"
proof -
  from assms obtain data s1 m s2 s3 where
    c: "fetch_content e s r = (Inr data, s1)" and
    m: "plugin_manifest s1 (servlets s1 r) data ws = (Inr m, s2)" and
    i: "inject_oauth s2 m oa = (Inr (), s3)" and
    n: "instantiate e s3 r m w f ok = (Inr p, s')"
    by (rule build_Inr)
  have p1: "plugins s1 = plugins s" "plugin_cache s1 = plugin_cache s"
    "next_addr s1 = next_addr s" "name (servlets s1 r) = name (servlets s r)"
    using fetch_content_frame[of e s r] fetch_content_fields[of e s r r] c by simp_all
  have p2: "plugins s2 = plugins s1" "plugin_cache s2 = plugin_cache s1"
    "next_addr s1 \<le> next_addr s2" "servlets s2 = servlets s1"
    using plugin_manifest_frame[of s1 "servlets s1 r" data ws]
      plugin_manifest_next[of s1 "servlets s1 r" data ws] m by simp_all
  have p3: "plugins s3 = plugins s2" "plugin_cache s3 = plugin_cache s2"
    "next_addr s3 = next_addr s2" "servlets s3 = servlets s2"
    using inject_oauth_frame[of s2 m oa] i by simp_all
  note q = instantiate_Inr[OF n]
  show "next_addr s \<le> p" using q(1) p1 p2 p3 by simp
  show "next_addr s' = Suc p" using q(2) .
  show "\<forall>a. a \<noteq> p \<longrightarrow> plugins s' a = plugins s a" using q(3) p1 p2 p3 by simp
  show "ip_install (plugins s' p) = r" using q(3) by simp
  show "timestamp (plugins s' p) = built e" using q(3) by simp
  show "\<not> ext_Plugin_raises e (ip_plugin (plugins s' p))" using q(3,4) by simp
  show "plugin_cache s' =
       (if ok then AList.update (name (servlets s r)) p (plugin_cache s) else plugin_cache s)"
    using q(5) p1 p2 p3 by simp
qed

subsection \<open>The WASI flag\<close>

lemma instantiate_wasi:
  "plugins (snd (instantiate e s r m w f ok)) a = plugins s a \<or>
   rt_wasi (ip_plugin (plugins (snd (instantiate e s r m w f ok)) a)) = w"
  by (simp add: instantiate_def Let_def ext_Plugin_def)

lemma build_wasi:
  "plugins (snd (build e s r oa w f ws ok)) a = plugins s a \<or>
   rt_wasi (ip_plugin (plugins (snd (build e s r oa w f ws ok)) a)) = w"
proof -
  obtain x1 s1 where c: "fetch_content e s r = (x1, s1)" by (cases "fetch_content e s r")
  obtain x2 s2 where m: "plugin_manifest s1 (servlets s1 r) (projr x1) ws = (x2, s2)"
    by (cases "plugin_manifest s1 (servlets s1 r) (projr x1) ws")
  obtain x3 s3 where i: "inject_oauth s2 (projr x2) oa = (x3, s3)"
    by (cases "inject_oauth s2 (projr x2) oa")
  have p1: "plugins s1 = plugins s"
    using fetch_content_frame(1)[of e s r] c by simp
  have p2: "plugins s2 = plugins s1"
    using plugin_manifest_frame(1)[of s1 "servlets s1 r" "projr x1" ws] m by simp
  have p3: "plugins s3 = plugins s2"
    using inject_oauth_frame(1)[of s2 "projr x2" oa] i by simp
  show ?thesis
    using instantiate_wasi[of e s3 r "projr x2" w f ok a] c m i p1 p2 p3
    by (auto simp: build_def split: sum.splits)
qed

text \<open>
  C8: a call of \<^verbatim>\<open>Client.plugin\<close> with any \<^verbatim>\<open>wasi\<close> argument, \<^verbatim>\<open>False\<close> and \<^verbatim>\<open>None\<close> too,
  does what the call with \<^verbatim>\<open>wasi=True\<close> does, and every plugin instance that the call
  creates holds a runtime that was instantiated with \<^verbatim>\<open>wasi=True\<close>: an instance in the
  store after the call is one that was there before, unchanged, or has that flag.
\<close>

theorem plugin_wasi_always_True:
  "plugin e s r cache wasi fs ws = plugin e s r cache (PyBool True) fs ws \<and>
   (plugins (snd (plugin e s r cache wasi fs ws)) a = plugins s a \<or>
    rt_wasi (ip_plugin (plugins (snd (plugin e s r cache wasi fs ws)) a)) = PyBool True)"
proof
  show "plugin e s r cache wasi fs ws = plugin e s r cache (PyBool True) fs ws"
    unfolding plugin_def py_or_True by (rule refl)
next
  obtain x1 s1 where o: "fetch_oauth e s (servlets s r) = (x1, s1)"
    by (cases "fetch_oauth e s (servlets s r)")
  have p1: "plugins s1 = plugins s"
    using fetch_oauth_state[of e s "servlets s r"] o by simp
  obtain x2 s2 where l: "cache_lookup e s1 (name (servlets s1 r))
      (cache_ok cache (PyBool True) fs ws) = (x2, s2)"
    by (cases "cache_lookup e s1 (name (servlets s1 r)) (cache_ok cache (PyBool True) fs ws)")
  have p2: "plugins s2 = plugins s1"
    using cache_lookup_state[of e s1 "name (servlets s1 r)" "cache_ok cache (PyBool True) fs ws"] l
    by auto
  show "plugins (snd (plugin e s r cache wasi fs ws)) a = plugins s a \<or>
    rt_wasi (ip_plugin (plugins (snd (plugin e s r cache wasi fs ws)) a)) = PyBool True"
    using build_wasi[of e s2 r "projr x1" "PyBool True" fs ws "cache_ok cache (PyBool True) fs ws" a]
      o l p1 p2
    by (auto simp: plugin_def py_or_True Let_def split: sum.splits option.splits)
qed

text \<open>C8 at the concrete client, called with \<^verbatim>\<open>wasi=False\<close>: the new instance has the flag.\<close>

theorem plugin_wasi_always_True_witness:
  "fst (plugin (gateway 0 200 ''wasm'' []) (img_client False None) 0 True (PyBool False)
          None None) = Inr 4 \<and>
   plugins (img_client False None) 4 = no_plugin \<and>
   rt_wasi (ip_plugin (plugins (snd (plugin (gateway 0 200 ''wasm'' []) (img_client False None) 0
          True (PyBool False) None None)) 4)) = PyBool True"
  using plugin_wasi_always_True
    [of "gateway 0 200 ''wasm'' []" "img_client False None" 0 True "PyBool False" None None 4]
  by (simp add: fixture_defs plugin_defs)

subsection \<open>The Plugin Cache\<close>

lemma fetch_oauth_Inr:
  assumes "fetch_oauth e s i = (res, s1)"
  shows "plugin_cache s1 = plugin_cache s" "plugins s1 = plugins s" "servlets s1 = servlets s"
    "next_addr s1 = next_addr s" "dicts s1 = dicts s" "profile s1 = profile s"
    "install_cache s1 = install_cache s"
    "requests s1 = requests s @ (if has_oauth i then [Get_oauth (profile s) (name i)] else [])"
  using fetch_oauth_state[of e s i] assms by simp_all

lemma cache_lookup_Some:
  assumes "cache_lookup e s nm ok = (Some c, s')"
  shows "s' = s" "ok" "map_of (plugin_cache s) nm = Some c"
    "now e < timestamp (plugins s c) + timedelta 4 30"
  using assms by (auto simp: cache_lookup_def split: if_splits option.splits)

lemma cache_lookup_None:
  assumes "cache_lookup e s nm ok = (None, s')"
  shows "(s' = s \<and> (\<not> ok \<or> map_of (plugin_cache s) nm = None)) \<or>
         (ok \<and> (\<exists>c. map_of (plugin_cache s) nm = Some c \<and>
                    timestamp (plugins s c) + timedelta 4 30 \<le> now e) \<and>
          s' = s\<lparr>plugin_cache := AList.delete nm (plugin_cache s)\<rparr>)"
  using assms by (auto simp: cache_lookup_def split: if_splits option.splits)

lemma plugin_cases:
  assumes "plugin e s r cache w fs ws = (res, s')"
  obtains (oauth_fails) err where
      "fetch_oauth e s (servlets s r) = (Inl err, s')" "res = Inl err"
  | (cached) oa s1 c where
      "fetch_oauth e s (servlets s r) = (Inr oa, s1)"
      "cache_lookup e s1 (name (servlets s r)) (cache_ok cache (PyBool True) fs ws) = (Some c, s')"
      "res = Inr c"
  | (built) oa s1 s2 where
      "fetch_oauth e s (servlets s r) = (Inr oa, s1)"
      "cache_lookup e s1 (name (servlets s r)) (cache_ok cache (PyBool True) fs ws) = (None, s2)"
      "build e s2 r oa (PyBool True) fs ws (cache_ok cache (PyBool True) fs ws) = (res, s')"
proof -
  obtain x1 s1 where o: "fetch_oauth e s (servlets s r) = (x1, s1)"
    by (cases "fetch_oauth e s (servlets s r)")
  have sv: "servlets s1 = servlets s" using fetch_oauth_Inr(3)[OF o] .
  show ?thesis
  proof (cases x1)
    case (Inl err)
    with assms o have "s' = s1" "res = Inl err" by (auto simp: plugin_def)
    with o Inl show ?thesis using oauth_fails by simp
  next
    case (Inr oa)
    obtain x2 s2 where l:
      "cache_lookup e s1 (name (servlets s r)) (cache_ok cache (PyBool True) fs ws) = (x2, s2)"
      by (cases "cache_lookup e s1 (name (servlets s r)) (cache_ok cache (PyBool True) fs ws)")
    show ?thesis
    proof (cases x2)
      case None
      with assms o Inr l sv
      have "build e s2 r oa (PyBool True) fs ws (cache_ok cache (PyBool True) fs ws) = (res, s')"
        by (simp add: plugin_def py_or_True Let_def)
      with o Inr l None show ?thesis using built by simp
    next
      case (Some c)
      with assms o Inr l sv have "res = Inr c" "s' = s2"
        by (simp_all add: plugin_def py_or_True Let_def)
      with o Inr l Some show ?thesis using cached by simp
    qed
  qed
qed

text \<open>
  C7, as amended: a call of \<^verbatim>\<open>Client.plugin\<close> that fails adds no entry to the Plugin Cache and
  replaces none: the cache is left as it was, or as it was without the expired entry of
  \<^verbatim>\<open>record.name\<close>, which is evicted before the rebuild starts. In any call, an entry that
  is in the cache afterwards and was not there before is the instance the call returns,
  fully constructed: built from the record, its runtime accepted by the Extism constructor.
\<close>

theorem plugin_failure_writes_nothing:
  assumes "plugin e s r cache w fs ws = (res, s')"
  shows "(isl res \<longrightarrow>
            plugin_cache s' = plugin_cache s \<or>
            (\<exists>c. map_of (plugin_cache s) (name (servlets s r)) = Some c \<and>
                 timestamp (plugins s c) + timedelta 4 30 \<le> now e \<and>
                 plugin_cache s' = AList.delete (name (servlets s r)) (plugin_cache s))) \<and>
         (\<forall>n p. map_of (plugin_cache s') n = Some p \<longrightarrow>
            map_of (plugin_cache s) n = Some p \<or>
            (res = Inr p \<and> n = name (servlets s r) \<and> ip_install (plugins s' p) = r \<and>
             \<not> ext_Plugin_raises e (ip_plugin (plugins s' p))))"
  using assms
proof (cases rule: plugin_cases)
  case (oauth_fails err)
  then show ?thesis using fetch_oauth_Inr(1)[OF oauth_fails(1)] by simp
next
  case (cached oa s1 c)
  then show ?thesis
    using fetch_oauth_Inr(1)[OF cached(1)] cache_lookup_Some(1)[OF cached(2)] by simp
next
  case (built oa s1 s2)
  note f = fetch_oauth_Inr[OF built(1)]
  have l: "plugin_cache s2 = plugin_cache s \<or>
     (\<exists>c. map_of (plugin_cache s) (name (servlets s r)) = Some c \<and>
           timestamp (plugins s c) + timedelta 4 30 \<le> now e) \<and>
     plugin_cache s2 = AList.delete (name (servlets s r)) (plugin_cache s)"
    using cache_lookup_None[OF built(2)] f by auto
  have sv: "servlets s2 = servlets s"
    using cache_lookup_None[OF built(2)] f by auto
  have sub: "\<And>n p. map_of (plugin_cache s2) n = Some p \<Longrightarrow> map_of (plugin_cache s) n = Some p"
    using l by (auto simp: delete_conv' split: if_splits)
  show ?thesis
  proof (cases res)
    case (Inl err)
    with built(3) have "plugin_cache s' = plugin_cache s2" using build_Inl by blast
    with Inl l sub show ?thesis by auto
  next
    case (Inr p)
    note b = build_Inr_facts[OF built(3)[unfolded Inr]]
    show ?thesis using Inr b(4,6,7) sub sv
      by (auto simp: update_conv' split: if_splits)
  qed
qed



lemma cache_ok_plain [simp]: "cache_ok c (PyBool True) None None = c"
  by (simp add: cache_ok_def)



lemma fetch_oauth_cache_indep:
  "fetch_oauth e (s\<lparr>plugin_cache := c\<rparr>) i =
     (fst (fetch_oauth e s i), (snd (fetch_oauth e s i))\<lparr>plugin_cache := c\<rparr>)"
  by (simp add: fetch_oauth_def Let_def split: http.splits oauth_doc.splits)

lemma fetch_content_cache_indep:
  "fetch_content e (s\<lparr>plugin_cache := c\<rparr>) r =
     (fst (fetch_content e s r), (snd (fetch_content e s r))\<lparr>plugin_cache := c\<rparr>)"
  by (simp add: fetch_content_def Let_def split: option.splits http.splits)

lemma plugin_manifest_cache_indep:
  "plugin_manifest (s\<lparr>plugin_cache := c\<rparr>) i d w =
     (fst (plugin_manifest s i d w), (snd (plugin_manifest s i d w))\<lparr>plugin_cache := c\<rparr>)"
  by (simp add: plugin_manifest_def Let_def split: option.splits sum.splits)

lemma inject_oauth_cache_indep:
  "inject_oauth (s\<lparr>plugin_cache := c\<rparr>) m oa =
     (fst (inject_oauth s m oa), (snd (inject_oauth s m oa))\<lparr>plugin_cache := c\<rparr>)"
  by (simp add: inject_oauth_def split: option.splits prod.splits)

lemma instantiate_cache_indep:
  "instantiate e (s\<lparr>plugin_cache := c\<rparr>) r m w f False =
     (fst (instantiate e s r m w f False), (snd (instantiate e s r m w f False))\<lparr>plugin_cache := c\<rparr>)"
  by (simp add: instantiate_def Let_def ext_Plugin_def)

lemma build_cache_indep:
  "build e (s\<lparr>plugin_cache := c\<rparr>) r oa w f ws False =
     (fst (build e s r oa w f ws False), (snd (build e s r oa w f ws False))\<lparr>plugin_cache := c\<rparr>)"
proof -
  obtain x1 s1 where c: "fetch_content e s r = (x1, s1)" by (cases "fetch_content e s r")
  obtain x2 s2 where m: "plugin_manifest s1 (servlets s1 r) (projr x1) ws = (x2, s2)"
    by (cases "plugin_manifest s1 (servlets s1 r) (projr x1) ws")
  obtain x3 s3 where i: "inject_oauth s2 (projr x2) oa = (x3, s3)"
    by (cases "inject_oauth s2 (projr x2) oa")
  obtain x4 s4 where n: "instantiate e s3 r (projr x2) w f False = (x4, s4)"
    by (cases "instantiate e s3 r (projr x2) w f False")
  show ?thesis
    using c m i n
    by (auto simp: build_def fetch_content_cache_indep plugin_manifest_cache_indep
          inject_oauth_cache_indep instantiate_cache_indep split: sum.splits)
qed

lemma cache_lookup_False: "cache_lookup e s nm False = (None, s)"
  by (simp add: cache_lookup_def)

lemma plugin_cache_indep:
  assumes "\<not> cache_ok cache (PyBool True) fs ws"
  shows "plugin e (s\<lparr>plugin_cache := c\<rparr>) r cache w fs ws =
     (fst (plugin e s r cache w fs ws), (snd (plugin e s r cache w fs ws))\<lparr>plugin_cache := c\<rparr>)"
proof -
  obtain x1 s1 where o: "fetch_oauth e s (servlets s r) = (x1, s1)"
    by (cases "fetch_oauth e s (servlets s r)")
  show ?thesis
    using o assms
    by (cases x1)
       (simp_all add: plugin_def py_or_True Let_def fetch_oauth_cache_indep cache_lookup_False
          build_cache_indep)
qed

text \<open>
  C6, as amended: a call is treated as cacheable exactly when caching was requested and
  neither extras argument was supplied (both are \<^verbatim>\<open>None\<close>; an empty list counts as supplied).
  When it is, the call reads the Plugin Cache: an unexpired instance under the record's
  name is what it returns, if the OAuth fetch of a record that needs one does not fail;
  and it writes it: an instance the call returns is the one in the cache afterwards. When
  it is not (no caching requested, or an extras argument supplied), the call does not write
  to the Plugin Cache and does not read from it: with any other cache content \<open>c\<close> it
  returns the same result and leaves the same client, up to that content.
\<close>

theorem plugin_cacheable_exactly_when:
  "(cache \<and> fs = None \<and> ws = None \<longrightarrow>
      (\<forall>p. map_of (plugin_cache s) (name (servlets s r)) = Some p \<and>
           now e < timestamp (plugins s p) + timedelta 4 30 \<and>
           \<not> isl (fst (fetch_oauth e s (servlets s r))) \<longrightarrow>
           fst (plugin e s r cache w fs ws) = Inr p) \<and>
      (\<forall>q. fst (plugin e s r cache w fs ws) = Inr q \<longrightarrow>
           map_of (plugin_cache (snd (plugin e s r cache w fs ws))) (name (servlets s r))
             = Some q)) \<and>
   (\<not> (cache \<and> fs = None \<and> ws = None) \<longrightarrow>
      plugin_cache (snd (plugin e s r cache w fs ws)) = plugin_cache s \<and>
      plugin e (s\<lparr>plugin_cache := c\<rparr>) r cache w fs ws =
        (fst (plugin e s r cache w fs ws),
         (snd (plugin e s r cache w fs ws))\<lparr>plugin_cache := c\<rparr>))"
proof (intro conjI impI allI)
  fix p
  assume ok: "cache \<and> fs = None \<and> ws = None"
    and h: "map_of (plugin_cache s) (name (servlets s r)) = Some p \<and>
            now e < timestamp (plugins s p) + timedelta 4 30 \<and>
            \<not> isl (fst (fetch_oauth e s (servlets s r)))"
  obtain res s' where p: "plugin e s r cache w fs ws = (res, s')"
    by (cases "plugin e s r cache w fs ws")
  from p have "res = Inr p"
  proof (cases rule: plugin_cases)
    case (oauth_fails err)
    then show ?thesis using h by simp
  next
    case (cached oa s1 x)
    note f = fetch_oauth_Inr[OF cached(1)]
    note l = cache_lookup_Some[OF cached(2)]
    show ?thesis using l(3) f(1) h cached(3) by simp
  next
    case (built oa s1 s2)
    note f = fetch_oauth_Inr[OF built(1)]
    have "cache_ok cache (PyBool True) fs ws" using ok by (simp add: cache_ok_def)
    then show ?thesis using cache_lookup_None[OF built(2)] f(1,2) h by auto
  qed
  with p show "fst (plugin e s r cache w fs ws) = Inr p" by simp
next
  fix q
  assume ok: "cache \<and> fs = None \<and> ws = None"
    and r: "fst (plugin e s r cache w fs ws) = Inr q"
  obtain res s' where p: "plugin e s r cache w fs ws = (res, s')"
    by (cases "plugin e s r cache w fs ws")
  have ck: "cache_ok cache (PyBool True) fs ws" using ok by (simp add: cache_ok_def)
  from p have "map_of (plugin_cache s') (name (servlets s r)) = Some q"
  proof (cases rule: plugin_cases)
    case (oauth_fails err)
    then show ?thesis using r p by simp
  next
    case (cached oa s1 x)
    note f = fetch_oauth_Inr[OF cached(1)]
    note l = cache_lookup_Some[OF cached(2)]
    show ?thesis using l(1,3) cached(3) r p by simp
  next
    case (built oa s1 s2)
    note f = fetch_oauth_Inr[OF built(1)]
    have sv: "servlets s2 = servlets s"
      using cache_lookup_None[OF built(2)] f(3) by auto
    have b: "build e s2 r oa (PyBool True) fs ws (cache_ok cache (PyBool True) fs ws) = (Inr q, s')"
      using built(3) r p by simp
    show ?thesis using build_Inr_facts(7)[OF b] ck sv by (simp add: update_conv')
  qed
  with p show "map_of (plugin_cache (snd (plugin e s r cache w fs ws))) (name (servlets s r))
             = Some q" by simp
next
  assume x: "\<not> (cache \<and> fs = None \<and> ws = None)"
  then have no: "\<not> cache_ok cache (PyBool True) fs ws" by (auto simp: cache_ok_def)
  have "plugin e (s\<lparr>plugin_cache := plugin_cache s\<rparr>) r cache w fs ws =
     (fst (plugin e s r cache w fs ws),
      (snd (plugin e s r cache w fs ws))\<lparr>plugin_cache := plugin_cache s\<rparr>)"
    using plugin_cache_indep[OF no] .
  then have "snd (plugin e s r cache w fs ws) =
      (snd (plugin e s r cache w fs ws))\<lparr>plugin_cache := plugin_cache s\<rparr>"
    by (simp add: prod_eq_iff)
  then have "plugin_cache (snd (plugin e s r cache w fs ws)) =
      plugin_cache ((snd (plugin e s r cache w fs ws))\<lparr>plugin_cache := plugin_cache s\<rparr>)"
    by simp
  then show "plugin_cache (snd (plugin e s r cache w fs ws)) = plugin_cache s" by simp
next
  assume x: "\<not> (cache \<and> fs = None \<and> ws = None)"
  then have no: "\<not> cache_ok cache (PyBool True) fs ws" by (auto simp: cache_ok_def)
  show "plugin e (s\<lparr>plugin_cache := c\<rparr>) r cache w fs ws =
        (fst (plugin e s r cache w fs ws),
         (snd (plugin e s r cache w fs ws))\<lparr>plugin_cache := c\<rparr>)"
    using plugin_cache_indep[OF no] .
qed

text \<open>
  C7, as stated, fails: the cache holds an instance that is 4 minutes 31 seconds old, the
  content is on the record, and the Extism constructor raises. The call fails and the
  Plugin Cache is not left unchanged: the entry is gone.
\<close>

theorem plugin_failure_evicts_counterexample:
  "plugin_cache (cached_client False None 0) = [(''img'', 2)] \<and>
   fst (plugin ((gateway 271000000 200 ''wasm'' [])\<lparr>ext_Plugin_raises := \<lambda>rt. True\<rparr>)
          (cached_client False None 0) 0 True PyNone None None) = Inl PluginError \<and>
   plugin_cache (snd (plugin ((gateway 271000000 200 ''wasm'' [])\<lparr>ext_Plugin_raises := \<lambda>rt. True\<rparr>)
          (cached_client False None 0) 0 True PyNone None None)) = []"
  by (simp add: fixture_defs plugin_defs)

text \<open>The amended C7 at a call that fails after the content fetch, and at one that succeeds.\<close>

theorem plugin_failure_writes_nothing_witness:
  "isl (fst (plugin ((gateway 0 200 ''wasm'' [])\<lparr>ext_Plugin_raises := \<lambda>rt. True\<rparr>)
          (img_client True (Some 1)) 0 True PyNone None None)) \<and>
   requests (snd (plugin ((gateway 0 200 ''wasm'' [])\<lparr>ext_Plugin_raises := \<lambda>rt. True\<rparr>)
          (img_client True (Some 1)) 0 True PyNone None None)) =
     [Get_oauth ''~/default'' ''img'', Get_content ''sha256-img''] \<and>
   plugin_cache (snd (plugin ((gateway 0 200 ''wasm'' [])\<lparr>ext_Plugin_raises := \<lambda>rt. True\<rparr>)
          (img_client True (Some 1)) 0 True PyNone None None)) = [] \<and>
   fst (plugin (gateway 0 200 ''wasm'' []) (img_client True (Some 1)) 0 True PyNone None None)
     = Inr 3 \<and>
   map_of (plugin_cache (snd (plugin (gateway 0 200 ''wasm'' []) (img_client True (Some 1)) 0
      True PyNone None None))) ''img'' = Some 3"
  using plugin_failure_writes_nothing
     [of "(gateway 0 200 ''wasm'' [])\<lparr>ext_Plugin_raises := \<lambda>rt. True\<rparr>"
         "img_client True (Some 1)" 0 True PyNone None None
         "fst (plugin ((gateway 0 200 ''wasm'' [])\<lparr>ext_Plugin_raises := \<lambda>rt. True\<rparr>)
          (img_client True (Some 1)) 0 True PyNone None None)"
         "snd (plugin ((gateway 0 200 ''wasm'' [])\<lparr>ext_Plugin_raises := \<lambda>rt. True\<rparr>)
          (img_client True (Some 1)) 0 True PyNone None None)"]
    plugin_failure_writes_nothing
     [of "gateway 0 200 ''wasm'' []"
         "img_client True (Some 1)" 0 True PyNone None None
         "fst (plugin (gateway 0 200 ''wasm'' [])
          (img_client True (Some 1)) 0 True PyNone None None)"
         "snd (plugin (gateway 0 200 ''wasm'' [])
          (img_client True (Some 1)) 0 True PyNone None None)"]
  by (simp add: fixture_defs plugin_defs)

text \<open>
  C6, as stated, fails: caching is requested, \<^verbatim>\<open>functions=[]\<close> is an empty collection and no
  modules are passed, and yet the call is not treated as cacheable: with an unexpired
  instance 2 in the cache it builds a new instance 4, which it does not store.
\<close>

theorem plugin_empty_extras_counterexample:
  "\<not> cache_ok True (py_or PyNone (PyBool True)) (Some []) None \<and>
   map_of (plugin_cache (cached_client False None 0)) ''img'' = Some 2 \<and>
   now (gateway 1000000 200 ''wasm'' []) <
     timestamp (plugins (cached_client False None 0) 2) + timedelta 4 30 \<and>
   fst (plugin (gateway 1000000 200 ''wasm'' []) (cached_client False None 0) 0
          True PyNone (Some []) None) = Inr 4 \<and>
   plugin_cache (snd (plugin (gateway 1000000 200 ''wasm'' []) (cached_client False None 0) 0
          True PyNone (Some []) None)) = [(''img'', 2)]"
  by (simp add: fixture_defs plugin_defs)

text \<open>
  The amended C6 at the concrete client: a cacheable call answered from the cache, one that
  builds and stores; a call with \<^verbatim>\<open>cache=False\<close> and one with an extra module, which build
  the same instance whatever the cache holds and leave the cache alone.
\<close>

theorem plugin_cacheable_exactly_when_witness:
  "map_of (plugin_cache (cached_client False None 0)) ''img'' = Some 2 \<and>
   now (gateway 1000000 200 ''wasm'' []) <
     timestamp (plugins (cached_client False None 0) 2) + timedelta 4 30 \<and>
   fst (plugin (gateway 1000000 200 ''wasm'' []) (cached_client False None 0) 0
          True PyNone None None) = Inr 2 \<and>
   fst (plugin (gateway 1000000 200 ''wasm'' [])
          ((cached_client False None 0)\<lparr>plugin_cache := []\<rparr>) 0 True PyNone None None)
     = Inr 4 \<and>
   map_of (plugin_cache (snd (plugin (gateway 1000000 200 ''wasm'' [])
          ((cached_client False None 0)\<lparr>plugin_cache := []\<rparr>) 0 True PyNone None None)))
      ''img'' = Some 4 \<and>
   fst (plugin (gateway 1000000 200 ''wasm'' []) (cached_client False None 0) 0
          False PyNone None None) = Inr 4 \<and>
   plugin_cache (snd (plugin (gateway 1000000 200 ''wasm'' []) (cached_client False None 0) 0
          False PyNone None None)) = [(''img'', 2)] \<and>
   fst (plugin (gateway 1000000 200 ''wasm'' [])
          ((cached_client False None 0)\<lparr>plugin_cache := []\<rparr>) 0 False PyNone None None)
     = Inr 4 \<and>
   fst (plugin (gateway 1000000 200 ''wasm'' []) (cached_client False None 0) 0
          True PyNone None (Some [[(''data'', ''extra'')]])) = Inr 4 \<and>
   plugin_cache (snd (plugin (gateway 1000000 200 ''wasm'' []) (cached_client False None 0) 0
          True PyNone None (Some [[(''data'', ''extra'')]]))) = [(''img'', 2)]"
  using plugin_cacheable_exactly_when
     [of True None None "cached_client False None 0" 0 "gateway 1000000 200 ''wasm'' []"
         PyNone "[]"]
    plugin_cacheable_exactly_when
     [of True None None "(cached_client False None 0)\<lparr>plugin_cache := []\<rparr>" 0
         "gateway 1000000 200 ''wasm'' []" PyNone "[]"]
    plugin_cacheable_exactly_when
     [of False None None "cached_client False None 0" 0 "gateway 1000000 200 ''wasm'' []"
         PyNone "[]"]
    plugin_cacheable_exactly_when
     [of True None "Some [[(''data'', ''extra'')]]" "cached_client False None 0" 0
         "gateway 1000000 200 ''wasm'' []" PyNone "[]"]
  by (simp add: fixture_defs plugin_defs)

subsection \<open>Two calls in a row\<close>



lemmas call_defs = plugin_def fetch_oauth_def cache_lookup_def build_def fetch_content_def
  plugin_manifest_def inject_oauth_def instantiate_def ext_Plugin_def cache_ok_def py_or_def
  raise_for_status_def timedelta_def Let_def img_settings_def img_servlet_def gateway_def








subsection \<open>The refresh of the install list\<close>

lemma delete_absent: "map_of al k = None \<Longrightarrow> AList.delete k al = al"
  by (induction al) (auto simp: AList.delete_eq split: if_splits)

lemma install_step_Inr:
  assumes "install_step e s w = Inr (a, s')"
  shows "a = next_addr s" "plugins s' = plugins s" "requests s' = requests s"
    "install_cache s' = AList.update (name (servlets s' a)) a (install_cache s)"
    "plugin_cache s' = AList.delete (name (servlets s' a)) (plugin_cache s)"
    "last_installations_request s' = last_installations_request s"
    "name (servlets s' a) = (case iw_name w of None \<Rightarrow> [] | Some n \<Rightarrow> n)"
  using assms
  by (auto simp: install_step_def parse_install_def Let_def delete_absent
      split: option.splits sum.splits prod.splits)

lemma install_loop_frame:
  "install_loop e s ws = (res, s') \<Longrightarrow>
     plugins s' = plugins s \<and> requests s' = requests s \<and>
     last_installations_request s' = last_installations_request s \<and>
     set (plugin_cache s') \<subseteq> set (plugin_cache s)"
proof (induction ws arbitrary: s res s')
  case Nil
  then show ?case by simp
next
  case (Cons w ws)
  show ?case
  proof (cases "install_step e s w")
    case (Inl err)
    with Cons.prems show ?thesis by simp
  next
    case (Inr x)
    obtain a s1 where x: "x = (a, s1)" by (cases x)
    obtain r2 s2 where l: "install_loop e s1 ws = (r2, s2)" by (cases "install_loop e s1 ws")
    note st = install_step_Inr[OF Inr[unfolded x]]
    have "s' = s2" using Cons.prems Inr x l by (auto split: prod.splits)
    moreover have "set (plugin_cache s1) \<subseteq> set (plugin_cache s)"
      using st(5) by (auto simp: AList.delete_eq)
    ultimately show ?thesis using Cons.IH[OF l] st by auto
  qed
qed

lemma coherent_step:
  assumes "coherent s" "install_step e s w = Inr (a, s')"
  shows "coherent s'"
    "\<forall>n. map_of (install_cache s') n \<noteq> map_of (install_cache s) n \<longrightarrow>
         map_of (plugin_cache s') n = None"
proof -
  note st = install_step_Inr[OF assms(2)]
  let ?nm = "name (servlets s' a)"
  show "coherent s'"
    unfolding coherent_def
  proof (clarify)
    fix n p assume "(n, p) \<in> set (plugin_cache s')"
    then have in_s: "(n, p) \<in> set (plugin_cache s)" and ne: "n \<noteq> ?nm"
      using st(5) by (auto simp: AList.delete_eq)
    with assms(1) have "map_of (install_cache s) n = Some (ip_install (plugins s p))"
      by (auto simp: coherent_def)
    with ne show "map_of (install_cache s') n = Some (ip_install (plugins s' p))"
      using st(2,4) by (simp add: update_conv')
  qed
  show "\<forall>n. map_of (install_cache s') n \<noteq> map_of (install_cache s) n \<longrightarrow>
         map_of (plugin_cache s') n = None"
    using st(4,5) by (auto simp: update_conv' delete_conv' split: if_splits)
qed

lemma map_of_None_subset:
  "set al' \<subseteq> set al \<Longrightarrow> map_of al k = None \<Longrightarrow> map_of al' k = None"
  by (auto simp: map_of_eq_None_iff)

lemma coherent_loop:
  "coherent s \<Longrightarrow> install_loop e s ws = (res, s') \<Longrightarrow>
     coherent s' \<and>
     (\<forall>n. map_of (install_cache s') n \<noteq> map_of (install_cache s) n \<longrightarrow>
          map_of (plugin_cache s') n = None)"
proof (induction ws arbitrary: s res s')
  case Nil
  then show ?case by simp
next
  case (Cons w ws)
  show ?case
  proof (cases "install_step e s w")
    case (Inl err)
    with Cons.prems show ?thesis by simp
  next
    case (Inr x)
    obtain a s1 where x: "x = (a, s1)" by (cases x)
    obtain r2 s2 where l: "install_loop e s1 ws = (r2, s2)" by (cases "install_loop e s1 ws")
    have eq: "s' = s2" using Cons.prems Inr x l by (auto split: prod.splits)
    note c1 = coherent_step[OF Cons.prems(1) Inr[unfolded x]]
    note ih = Cons.IH[OF c1(1) l]
    have sub: "set (plugin_cache s2) \<subseteq> set (plugin_cache s1)"
      using install_loop_frame[OF l] by simp
    show ?thesis
      unfolding eq
    proof (intro conjI allI impI)
      show "coherent s2" using ih by simp
    next
      fix n assume ch: "map_of (install_cache s2) n \<noteq> map_of (install_cache s) n"
      show "map_of (plugin_cache s2) n = None"
      proof (cases "map_of (install_cache s2) n = map_of (install_cache s1) n")
        case True
        with ch c1(2) have "map_of (plugin_cache s1) n = None" by simp
        then show ?thesis using map_of_None_subset[OF sub] by blast
      next
        case False
        then show ?thesis using ih by simp
      qed
    qed
  qed
qed

lemma evict_step:
  assumes "install_step e s w = Inr (a, s')"
  shows "\<forall>n. map_of (install_cache s') n \<noteq> map_of (install_cache s) n \<longrightarrow>
         map_of (plugin_cache s') n = None"
  using install_step_Inr(4,5)[OF assms]
  by (auto simp: update_conv' delete_conv' split: if_splits)

lemma evict_loop:
  "install_loop e s ws = (res, s') \<Longrightarrow>
     \<forall>n. map_of (install_cache s') n \<noteq> map_of (install_cache s) n \<longrightarrow>
          map_of (plugin_cache s') n = None"
proof (induction ws arbitrary: s res s')
  case Nil
  then show ?case by simp
next
  case (Cons w ws)
  show ?case
  proof (cases "install_step e s w")
    case (Inl err)
    with Cons.prems show ?thesis by simp
  next
    case (Inr x)
    obtain a s1 where x: "x = (a, s1)" by (cases x)
    obtain r2 s2 where l: "install_loop e s1 ws = (r2, s2)" by (cases "install_loop e s1 ws")
    have eq: "s' = s2" using Cons.prems Inr x l by (auto split: prod.splits)
    note e1 = evict_step[OF Inr[unfolded x]]
    note ih = Cons.IH[OF l]
    have sub: "set (plugin_cache s2) \<subseteq> set (plugin_cache s1)"
      using install_loop_frame[OF l] by simp
    show ?thesis
      unfolding eq
    proof (intro allI impI)
      fix n assume ch: "map_of (install_cache s2) n \<noteq> map_of (install_cache s) n"
      show "map_of (plugin_cache s2) n = None"
      proof (cases "map_of (install_cache s2) n = map_of (install_cache s1) n")
        case True
        with ch e1 have "map_of (plugin_cache s1) n = None" by simp
        then show ?thesis using map_of_None_subset[OF sub] by blast
      next
        case False
        then show ?thesis using ih by simp
      qed
    qed
  qed
qed

lemma list_installs_cases:
  assumes "list_installs e s scope = (res, s')"
  obtains (kept) "install_cache s' = install_cache s" "plugin_cache s' = plugin_cache s"
      "plugins s' = plugins s"
  | (looped) s1 ws where "install_cache s1 = install_cache s" "plugin_cache s1 = plugin_cache s"
      "plugins s1 = plugins s" "install_loop e s1 ws = (res, s')"
proof -
  let ?last = "case map_of (last_installations_request s) scope of None \<Rightarrow> None | Some v \<Rightarrow> v"
  let ?s1 = "s\<lparr>requests := requests s @ [Get_installations scope ?last]\<rparr>"
  show ?thesis
  proof (cases "installations_response e scope ?last")
    case Transport_failure
    with assms show ?thesis using kept by (auto simp: list_installs_def Let_def)
  next
    case (Response status d)
    obtain date doc where d: "d = (date, doc)" by (cases d)
    show ?thesis
    proof (cases "raise_for_status status \<or> status = 301")
      case True
      with assms Response d show ?thesis using kept
        by (auto simp: list_installs_def Let_def split: if_splits)
    next
      case False
      show ?thesis
      proof (cases doc)
        case Installs_not_json
        with assms Response d False show ?thesis using kept
          by (auto simp: list_installs_def Let_def)
      next
        case Installs_no_key
        with assms Response d False show ?thesis using kept
          by (auto simp: list_installs_def Let_def)
      next
        case (Installs ws)
        let ?s2 = "?s1\<lparr>last_installations_request :=
                       AList.update scope date (last_installations_request ?s1)\<rparr>"
        from assms Response d False Installs
        have "install_loop e ?s2 ws = (res, s')"
          by (simp add: list_installs_def Let_def)
        moreover have "install_cache ?s2 = install_cache s" "plugin_cache ?s2 = plugin_cache s"
          "plugins ?s2 = plugins s" by simp_all
        ultimately show ?thesis by (rule looped[rotated 3])
      qed
    qed
  qed
qed

text \<open>
  C5, as amended: every name whose record in the Install Cache a run of \<^verbatim>\<open>list_installs\<close>
  has replaced has no entry in the Plugin Cache afterwards, from any client state; no clock
  is read, so the entry is evicted whether or not its TTL has elapsed, and this holds too
  when the run ends with an exception after some of the installs. The refresh keeps the
  two caches coherent when they were so before; it does not make them so.
\<close>

theorem list_installs_evicts_replaced:
  assumes "list_installs e s scope = (res, s')"
  shows "(\<forall>n. map_of (install_cache s') n \<noteq> map_of (install_cache s) n \<longrightarrow>
              map_of (plugin_cache s') n = None) \<and>
         (coherent s \<longrightarrow> coherent s')"
  using assms
proof (cases rule: list_installs_cases)
  case kept
  then show ?thesis by (simp add: coherent_def)
next
  case (looped s1 ws)
  have c: "coherent s \<Longrightarrow> coherent s1" using looped(1,2,3) by (simp add: coherent_def)
  show ?thesis
    using evict_loop[OF looped(4)] coherent_loop[OF c looped(4)] looped(1) by simp
qed

text \<open>
  C3, as amended: when the answer is \<^verbatim>\<open>301\<close>, \<^verbatim>\<open>list_installs\<close> yields the records of the
  install cache, none when it is empty, and raises nothing; it has made the one request,
  makes no other, and changes neither the caches nor the stored \<^verbatim>\<open>Date\<close> header.
\<close>

theorem list_installs_not_modified:
  assumes "installations_response e scope
             (case map_of (last_installations_request s) scope of None \<Rightarrow> None | Some v \<Rightarrow> v)
           = Response 301 d"
  shows "list_installs e s scope =
           ((map snd (install_cache s), None),
            s\<lparr>requests := requests s @
                 [Get_installations scope
                    (case map_of (last_installations_request s) scope of
                       None \<Rightarrow> None | Some v \<Rightarrow> v)]\<rparr>)"
  using assms
  by (cases d) (simp add: list_installs_def Let_def raise_for_status_def)


lemmas list_defs = list_installs_def install_step_def parse_install_def raise_for_status_def
  Let_def img_wire_def gateway_def conditional_gateway_def

text \<open>
  The refresh is a merge: a name that no element of the new list carries keeps the record it
  had in the install cache.
\<close>

lemma install_loop_keeps_others:
  "install_loop e s ws = (res, s') \<Longrightarrow>
   n \<notin> (\<lambda>w. case iw_name w of None \<Rightarrow> [] | Some x \<Rightarrow> x) ` set ws \<Longrightarrow>
   map_of (install_cache s') n = map_of (install_cache s) n"
proof (induction ws arbitrary: s res s')
  case Nil
  then show ?case by simp
next
  case (Cons w ws)
  show ?case
  proof (cases "install_step e s w")
    case (Inl err)
    with Cons.prems show ?thesis by simp
  next
    case (Inr x)
    obtain a s1 where x: "x = (a, s1)" by (cases x)
    obtain r2 s2 where l: "install_loop e s1 ws = (r2, s2)" by (cases "install_loop e s1 ws")
    note st = install_step_Inr[OF Inr[unfolded x]]
    have eq: "s' = s2" using Cons.prems(1) Inr x l by (auto split: prod.splits)
    have "n \<noteq> name (servlets s1 a)" using st(7) Cons.prems(2) by auto
    then have "map_of (install_cache s1) n = map_of (install_cache s) n"
      using st(4) by (simp add: update_conv')
    moreover have "map_of (install_cache s2) n = map_of (install_cache s1) n"
      using Cons.IH[OF l] Cons.prems(2) by simp
    ultimately show ?thesis using eq by simp
  qed
qed

text \<open>
  C2, evaluated: the install cache holds \<^verbatim>\<open>"img"\<close> and \<^verbatim>\<open>"old"\<close>, and the server's install
  list, answered with status 200, has \<^verbatim>\<open>"img"\<close> only. After the refresh has run to its end
  \<^verbatim>\<open>"img"\<close> is the new record 3 and \<^verbatim>\<open>"old"\<close>, absent from the list, is still a key.
\<close>

theorem list_installs_keeps_absent_name:
  "install_cache two_client = [(''img'', 0), (''old'', 1)] \<and>
   fst (list_installs (gateway 1 200 ''wasm'' [img_wire ''img'']) two_client ''~/default'') =
     ([3], None) \<and>
   install_cache (snd (list_installs (gateway 1 200 ''wasm'' [img_wire ''img''])
      two_client ''~/default'')) = [(''img'', 3), (''old'', 1)]"
  by (simp add: list_defs two_client_def fixture_defs)

text \<open>
  C3, as stated, fails: the install cache is empty, a \<^verbatim>\<open>Date\<close> is on record, and the gateway
  answers \<^verbatim>\<open>301\<close> to the conditional request. \<^verbatim>\<open>list_installs\<close> yields the empty cached set,
  and the only request made is the conditional one; a request without the header would
  have been answered with the install (last conjunct).
\<close>

theorem list_installs_301_empty_counterexample:
  "install_cache ((new_client ''~/default'')
      \<lparr>last_installations_request := [(''~/default'', Some ''Mon'')]\<rparr>) = [] \<and>
   fst (list_installs conditional_gateway ((new_client ''~/default'')
      \<lparr>last_installations_request := [(''~/default'', Some ''Mon'')]\<rparr>) ''~/default'') =
     ([], None) \<and>
   requests (snd (list_installs conditional_gateway ((new_client ''~/default'')
      \<lparr>last_installations_request := [(''~/default'', Some ''Mon'')]\<rparr>) ''~/default'')) =
     [Get_installations ''~/default'' (Some ''Mon'')] \<and>
   fst (list_installs conditional_gateway (new_client ''~/default'') ''~/default'') =
     ([0], None)"
  by (simp add: list_defs fixture_defs)

text \<open>The amended C3 at a client with two cached installs.\<close>

theorem list_installs_not_modified_witness:
  "installations_response conditional_gateway ''~/default'' (Some ''Mon'') =
     Response 301 (None, Installs_not_json) \<and>
   list_installs conditional_gateway
     (two_client\<lparr>last_installations_request := [(''~/default'', Some ''Mon'')]\<rparr>) ''~/default'' =
     (([0, 1], None),
      two_client\<lparr>last_installations_request := [(''~/default'', Some ''Mon'')],
                 requests := [Get_installations ''~/default'' (Some ''Mon'')]\<rparr>)"
  using list_installs_not_modified
    [of conditional_gateway "''~/default''"
        "two_client\<lparr>last_installations_request := [(''~/default'', Some ''Mon'')]\<rparr>"
        "(None, Installs_not_json)"]
  by (simp add: conditional_gateway_def gateway_def two_client_def fixture_defs)

text \<open>
  C5 at the concrete client: the instance was built one microsecond ago; the refresh
  replaces the record of \<^verbatim>\<open>"img"\<close> and the instance is evicted.
\<close>

theorem list_installs_evicts_replaced_witness:
  "coherent (cached_client False None 0) \<and>
   map_of (plugin_cache (cached_client False None 0)) ''img'' = Some 2 \<and>
   now (gateway 1 200 ''wasm'' [img_wire ''img'']) <
     timestamp (plugins (cached_client False None 0) 2) + timedelta 4 30 \<and>
   map_of (install_cache (cached_client False None 0)) ''img'' = Some 0 \<and>
   map_of (install_cache (snd (list_installs (gateway 1 200 ''wasm'' [img_wire ''img''])
      (cached_client False None 0) ''~/default''))) ''img'' = Some 3 \<and>
   map_of (plugin_cache (snd (list_installs (gateway 1 200 ''wasm'' [img_wire ''img''])
      (cached_client False None 0) ''~/default''))) ''img'' = None \<and>
   coherent (snd (list_installs (gateway 1 200 ''wasm'' [img_wire ''img''])
      (cached_client False None 0) ''~/default''))"
proof -
  have c: "coherent (cached_client False None 0)"
    by (simp add: coherent_def fixture_defs)
  note w = list_installs_evicts_replaced[OF prod.collapse[symmetric],
      of "gateway 1 200 ''wasm'' [img_wire ''img'']" "cached_client False None 0" "''~/default''"]
  have ev: "map_of (install_cache (snd (list_installs (gateway 1 200 ''wasm'' [img_wire ''img''])
      (cached_client False None 0) ''~/default''))) ''img'' = Some 3"
    "map_of (install_cache (cached_client False None 0)) ''img'' = Some 0"
    "map_of (plugin_cache (cached_client False None 0)) ''img'' = Some 2"
    "now (gateway 1 200 ''wasm'' [img_wire ''img'']) <
     timestamp (plugins (cached_client False None 0) 2) + timedelta 4 30"
    by (simp_all add: list_defs fixture_defs timedelta_def)
  from w have "map_of (plugin_cache (snd (list_installs (gateway 1 200 ''wasm'' [img_wire ''img''])
      (cached_client False None 0) ''~/default''))) ''img'' = None"
    using ev(1,2) by (metis option.inject zero_neq_numeral)
  with w c ev show ?thesis by simp
qed

lemma refreshed_fields:
  "install_cache refreshed_client = [(''img'', 3)]"
  "plugin_cache refreshed_client = []"
  "servlets refreshed_client 0 = img_servlet False None"
  "name (servlets refreshed_client 3) = ''img''"
  "has_oauth (servlets refreshed_client 3) = False"
  "next_addr refreshed_client = 5"
  "profile refreshed_client = ''~/default''"
  by (simp_all add: refreshed_client_def list_defs fixture_defs)

lemma stale_fields:
  "install_cache stale_client = [(''img'', 3)]"
  "plugin_cache stale_client = [(''img'', 6)]"
  "ip_install (plugins stale_client 6) = 0"
  "timestamp (plugins stale_client 6) = 1"
  "name (servlets stale_client 3) = ''img''"
  "has_oauth (servlets stale_client 3) = False"
  by (simp_all add: stale_client_def call_defs refreshed_fields)

text \<open>
  C5, as stated, fails in its second half: after the refresh has replaced the record of
  \<^verbatim>\<open>"img"\<close> by the object 3, a call of \<^verbatim>\<open>plugin\<close> on the old record 0 builds the instance 6
  and caches it under \<^verbatim>\<open>"img"\<close>. The cached instance was not built from the record that the
  Install Cache holds under the name, and a call on that record is answered with it.
\<close>

theorem stale_record_counterexample:
  "fst (list_installs (gateway 0 200 ''wasm'' [img_wire ''img'']) (img_client False None)
         ''~/default'') = ([3], None) \<and>
   fst (plugin (gateway 1 200 ''wasm'' []) refreshed_client 0 True PyNone None None) = Inr 6 \<and>
   map_of (install_cache stale_client) ''img'' = Some 3 \<and>
   map_of (plugin_cache stale_client) ''img'' = Some 6 \<and>
   ip_install (plugins stale_client 6) = 0 \<and>
   \<not> coherent stale_client \<and>
   fst (plugin (gateway 2 200 ''wasm'' []) stale_client 3 True PyNone None None) = Inr 6"
proof -
  have a: "fst (list_installs (gateway 0 200 ''wasm'' [img_wire ''img'']) (img_client False None)
         ''~/default'') = ([3], None)"
    by (simp add: list_defs fixture_defs)
  have b: "fst (plugin (gateway 1 200 ''wasm'' []) refreshed_client 0 True PyNone None None) = Inr 6"
    by (simp add: call_defs refreshed_fields)
  have c: "\<not> coherent stale_client"
    by (simp add: coherent_def stale_fields)
  have d: "fst (plugin (gateway 2 200 ''wasm'' []) stale_client 3 True PyNone None None) = Inr 6"
    by (simp add: call_defs stale_fields)
  show ?thesis using a b c d by (simp add: stale_fields)
qed

subsection \<open>What a call leaves on the record\<close>

lemma fetch_content_present:
  "content (servlets s r) = Some b \<Longrightarrow> fetch_content e s r = (Inr b, s)"
  by (simp add: fetch_content_def)

lemma fetch_content_absent:
  assumes "content (servlets s r) = None"
    and "content_response e (content_addr (servlets s r)) = Response status body"
  shows "fetch_content e s r =
     (Inr body,
      s\<lparr>requests := requests s @ [Get_content (content_addr (servlets s r))],
        servlets := (servlets s)(r := (servlets s r)\<lparr>content := Some body\<rparr>)\<rparr>)"
  using assms by (simp add: fetch_content_def Let_def)

lemma fetch_content_other:
  "a \<noteq> r \<Longrightarrow> servlets (snd (fetch_content e s r)) a = servlets s a"
  by (simp add: fetch_content_def Let_def split: option.splits http.splits)

lemma build_after_fetch:
  assumes "build e s r oa w f ws ok = (res, s')"
  shows "servlets s' = servlets (snd (fetch_content e s r))"
    "requests s' = requests (snd (fetch_content e s r))"
proof -
  obtain x1 s1 where c: "fetch_content e s r = (x1, s1)" by (cases "fetch_content e s r")
  obtain x2 s2 where m: "plugin_manifest s1 (servlets s1 r) (projr x1) ws = (x2, s2)"
    by (cases "plugin_manifest s1 (servlets s1 r) (projr x1) ws")
  obtain x3 s3 where i: "inject_oauth s2 (projr x2) oa = (x3, s3)"
    by (cases "inject_oauth s2 (projr x2) oa")
  obtain x4 s4 where n: "instantiate e s3 r (projr x2) w f ok = (x4, s4)"
    by (cases "instantiate e s3 r (projr x2) w f ok")
  have p2: "servlets s2 = servlets s1" "requests s2 = requests s1"
    using plugin_manifest_frame[of s1 "servlets s1 r" "projr x1" ws] m by simp_all
  have p3: "servlets s3 = servlets s2" "requests s3 = requests s2"
    using inject_oauth_frame[of s2 "projr x2" oa] i by simp_all
  have p4: "servlets s4 = servlets s3" "requests s4 = requests s3"
    using n by (auto simp: instantiate_def Let_def split: if_splits)
  have "s' = s1 \<or> s' = s2 \<or> s' = s3 \<or> s' = s4"
    using assms c m i n by (auto simp: build_def split: sum.splits)
  then show "servlets s' = servlets (snd (fetch_content e s r))"
    "requests s' = requests (snd (fetch_content e s r))"
    using c p2 p3 p4 by auto
qed

lemma cache_lookup_frame:
  "servlets (snd (cache_lookup e s nm ok)) = servlets s"
  "requests (snd (cache_lookup e s nm ok)) = requests s"
  "dicts (snd (cache_lookup e s nm ok)) = dicts s"
  "plugins (snd (cache_lookup e s nm ok)) = plugins s"
  "next_addr (snd (cache_lookup e s nm ok)) = next_addr s"
  by (simp_all add: cache_lookup_def split: option.splits)

lemma cache_lookup_res:
  assumes "cache_lookup e s nm ok = (x, s')"
  shows "servlets s' = servlets s" "requests s' = requests s" "dicts s' = dicts s"
    "plugins s' = plugins s" "next_addr s' = next_addr s"
  using cache_lookup_frame[of e s nm ok] assms by simp_all

lemma cache_lookup_requests:
  "fst (cache_lookup e (s\<lparr>requests := x\<rparr>) nm ok) = fst (cache_lookup e s nm ok)"
  by (simp add: cache_lookup_def split: option.splits)

lemma plugin_content_kept:
  assumes "content (servlets t r) = Some body"
  shows "content (servlets (snd (plugin e t r2 c w f ws)) r) = Some body"
proof -
  obtain res t' where p: "plugin e t r2 c w f ws = (res, t')" by (cases "plugin e t r2 c w f ws")
  from p have "content (servlets t' r) = Some body"
  proof (cases rule: plugin_cases)
    case (oauth_fails err)
    then show ?thesis using fetch_oauth_Inr(3)[OF oauth_fails(1)] assms by simp
  next
    case (cached oa s1 x)
    then show ?thesis
      using fetch_oauth_Inr(3)[OF cached(1)] cache_lookup_Some(1)[OF cached(2)] assms by simp
  next
    case (built oa s1 s2)
    have sv: "servlets s2 = servlets t"
      using fetch_oauth_Inr(3)[OF built(1)] cache_lookup_res(1)[OF built(2)] by simp
    have "servlets t' = servlets (snd (fetch_content e s2 r2))"
      using build_after_fetch(1)[OF built(3)] .
    then show ?thesis
      using sv assms fetch_content_present[of s2 r body e] fetch_content_other[of r r2 e s2]
      by (cases "r2 = r") simp_all
  qed
  with p show ?thesis by simp
qed

lemma plugin_no_content_request:
  assumes "content (servlets t r) = Some body"
  shows "requests (snd (plugin e t r c w f ws)) =
     requests t @ (if has_oauth (servlets t r)
                   then [Get_oauth (profile t) (name (servlets t r))] else [])"
proof -
  obtain res t' where p: "plugin e t r c w f ws = (res, t')" by (cases "plugin e t r c w f ws")
  from p have "requests t' =
     requests t @ (if has_oauth (servlets t r)
                   then [Get_oauth (profile t) (name (servlets t r))] else [])"
  proof (cases rule: plugin_cases)
    case (oauth_fails err)
    then show ?thesis using fetch_oauth_Inr(8)[OF oauth_fails(1)] by simp
  next
    case (cached oa s1 x)
    then show ?thesis
      using fetch_oauth_Inr(8)[OF cached(1)] cache_lookup_Some(1)[OF cached(2)] by simp
  next
    case (built oa s1 s2)
    have sv: "servlets s2 = servlets t" "requests s2 = requests s1"
      using fetch_oauth_Inr(3)[OF built(1)] cache_lookup_res(1,2)[OF built(2)]
      by simp_all
    have "requests t' = requests (snd (fetch_content e s2 r))"
      using build_after_fetch(2)[OF built(3)] .
    then show ?thesis
      using sv assms fetch_content_present[of s2 r body e] fetch_oauth_Inr(8)[OF built(1)]
      by simp
  qed
  with p show ?thesis by simp
qed

text \<open>
  C9: when a call of \<^verbatim>\<open>Client.plugin\<close> reaches the content fetch (the OAuth fetch did not
  fail and the call is not answered from the cache) for a record without content, and the
  content endpoint answers with any status code and the body \<open>body\<close>, the record's content
  is that body afterwards, whether or not the rest of the call succeeds. From then on no
  call of \<^verbatim>\<open>plugin\<close>, on this or another record, changes it, and a call on this record makes
  no request but the OAuth one: the content is never fetched again.
\<close>

theorem content_stored_whatever_status:
  assumes "content (servlets s r) = None"
    and "content_response e (content_addr (servlets s r)) = Response status body"
    and "\<not> isl (fst (fetch_oauth e s (servlets s r)))"
    and "fst (cache_lookup e s (name (servlets s r)) (cache_ok cache (PyBool True) fs ws)) = None"
  shows "content (servlets (snd (plugin e s r cache w fs ws)) r) = Some body \<and>
    (\<forall>e2 t r2 c2 w2 f2 ws2.
       content (servlets t r) = Some body \<longrightarrow>
         content (servlets (snd (plugin e2 t r2 c2 w2 f2 ws2)) r) = Some body \<and>
         requests (snd (plugin e2 t r c2 w2 f2 ws2)) =
           requests t @ (if has_oauth (servlets t r)
                         then [Get_oauth (profile t) (name (servlets t r))] else []))"
proof (intro conjI allI impI)
  obtain res s' where p: "plugin e s r cache w fs ws = (res, s')"
    by (cases "plugin e s r cache w fs ws")
  from p have "content (servlets s' r) = Some body"
  proof (cases rule: plugin_cases)
    case (oauth_fails err)
    then show ?thesis using assms(3) by simp
  next
    case (cached oa s1 x)
    have "s1 = s\<lparr>requests := requests s1\<rparr>"
      using fetch_oauth_state[of e s "servlets s r"] cached(1) by simp
    then have "fst (cache_lookup e s1 (name (servlets s r)) (cache_ok cache (PyBool True) fs ws))
        = None"
      using assms(4) cache_lookup_requests[where e=e and s=s and x="requests s1"] by simp
    with cached(2) show ?thesis by simp
  next
    case (built oa s1 s2)
    have sv: "servlets s2 = servlets s"
      using fetch_oauth_Inr(3)[OF built(1)] cache_lookup_res(1)[OF built(2)] by simp
    have "servlets s' = servlets (snd (fetch_content e s2 r))"
      using build_after_fetch(1)[OF built(3)] .
    then show ?thesis
      using sv assms(1,2) fetch_content_absent[of s2 r e status body] by simp
  qed
  with p show "content (servlets (snd (plugin e s r cache w fs ws)) r) = Some body" by simp
next
  fix e2 and t :: client and r2 c2 w2 f2 ws2
  assume "content (servlets t r) = Some body"
  then show "content (servlets (snd (plugin e2 t r2 c2 w2 f2 ws2)) r) = Some body"
    by (rule plugin_content_kept)
next
  fix e2 and t :: client and r2 c2 w2 f2 ws2
  assume "content (servlets t r) = Some body"
  then show "requests (snd (plugin e2 t r c2 w2 f2 ws2)) =
           requests t @ (if has_oauth (servlets t r)
                         then [Get_oauth (profile t) (name (servlets t r))] else [])"
    by (rule plugin_no_content_request)
qed


lemma failed_client_fields:
  "servlets failed_client 0 = (img_servlet False None)\<lparr>content := Some ''Not Found''\<rparr>"
  "requests failed_client = [Get_content ''sha256-img'']"
  "plugin_cache failed_client = []"
  "profile failed_client = ''~/default''"
  by (simp_all add: failed_client_def broken_gateway_def fixture_defs plugin_defs)

text \<open>
  C9 at the concrete client: the content endpoint answers \<^verbatim>\<open>404 Not Found\<close>; the call fails
  in the Extism constructor and the error body stays on the record, also after a call
  against a gateway that would serve the content.
\<close>

theorem content_stored_whatever_status_witness:
  "content (servlets (img_client False None) 0) = None \<and>
   content_response broken_gateway (content_addr (servlets (img_client False None) 0)) =
     Response 404 ''Not Found'' \<and>
   fst (plugin broken_gateway (img_client False None) 0 True PyNone None None) =
     Inl PluginError \<and>
   content (servlets failed_client 0) = Some ''Not Found'' \<and>
   content (servlets (snd (plugin (gateway 1 200 ''wasm'' []) failed_client 0
      True PyNone None None)) 0) = Some ''Not Found'' \<and>
   requests (snd (plugin (gateway 1 200 ''wasm'' []) failed_client 0 True PyNone None None)) =
     [Get_content ''sha256-img'']"
proof -
  have h: "content (servlets (img_client False None) 0) = None"
    "content_response broken_gateway (content_addr (servlets (img_client False None) 0)) =
       Response 404 ''Not Found''"
    "\<not> isl (fst (fetch_oauth broken_gateway (img_client False None)
        (servlets (img_client False None) 0)))"
    "fst (cache_lookup broken_gateway (img_client False None)
        (name (servlets (img_client False None) 0)) (cache_ok True (PyBool True) None None)) = None"
    by (simp_all add: broken_gateway_def fixture_defs fetch_oauth_def cache_lookup_def)
  have r: "fst (plugin broken_gateway (img_client False None) 0 True PyNone None None) =
     Inl PluginError"
    by (simp add: broken_gateway_def fixture_defs plugin_defs)
  note w = content_stored_whatever_status[OF h, of PyNone]
  have c: "content (servlets failed_client 0) = Some ''Not Found''"
    using w by (simp add: failed_client_def)
  from w have later: "content (servlets (snd (plugin (gateway 1 200 ''wasm'' []) failed_client 0
      True PyNone None None)) 0) = Some ''Not Found'' \<and>
    requests (snd (plugin (gateway 1 200 ''wasm'' []) failed_client 0 True PyNone None None)) =
      requests failed_client @ (if has_oauth (servlets failed_client 0)
         then [Get_oauth (profile failed_client) (name (servlets failed_client 0))] else [])"
    using c by blast
  show ?thesis
    using h(1,2) r c later by (simp add: failed_client_fields img_servlet_def)
qed













subsection \<open>Coherence under \<^verbatim>\<open>Client.plugin\<close>\<close>

text \<open>
  The invariant that the refresh preserves is also kept by \<^verbatim>\<open>plugin\<close>, when it is called on
  the record that the install cache holds under its name and the cached instances are
  objects created earlier.
\<close>

lemma update_entries:
  "(n, q) \<in> set (AList.update k v al) \<Longrightarrow> (n, q) = (k, v) \<or> (n, q) \<in> set al"
  by (induction al) (auto split: if_splits)

lemma install_cache_frame:
  "install_cache (snd (fetch_oauth e s i)) = install_cache s"
  "install_cache (snd (cache_lookup e s nm ok)) = install_cache s"
  "install_cache (snd (fetch_content e s r)) = install_cache s"
  "install_cache (snd (plugin_manifest s i d ws)) = install_cache s"
  "install_cache (snd (inject_oauth s m oa)) = install_cache s"
  "install_cache (snd (instantiate e s r m w f ok)) = install_cache s"
  by (simp_all add: fetch_oauth_def cache_lookup_def fetch_content_def plugin_manifest_def
      inject_oauth_def instantiate_def Let_def
      split: http.splits oauth_doc.splits option.splits sum.splits prod.splits)

lemma build_install_cache:
  assumes "build e s r oa w f ws ok = (res, s')"
  shows "install_cache s' = install_cache s"
proof -
  obtain x1 s1 where c: "fetch_content e s r = (x1, s1)" by (cases "fetch_content e s r")
  obtain x2 s2 where m: "plugin_manifest s1 (servlets s1 r) (projr x1) ws = (x2, s2)"
    by (cases "plugin_manifest s1 (servlets s1 r) (projr x1) ws")
  obtain x3 s3 where i: "inject_oauth s2 (projr x2) oa = (x3, s3)"
    by (cases "inject_oauth s2 (projr x2) oa")
  obtain x4 s4 where n: "instantiate e s3 r (projr x2) w f ok = (x4, s4)"
    by (cases "instantiate e s3 r (projr x2) w f ok")
  have p: "install_cache s1 = install_cache s" "install_cache s2 = install_cache s1"
    "install_cache s3 = install_cache s2" "install_cache s4 = install_cache s3"
    using install_cache_frame(3)[of e s r] c
      install_cache_frame(4)[of s1 "servlets s1 r" "projr x1" ws] m
      install_cache_frame(5)[of s2 "projr x2" oa] i
      install_cache_frame(6)[of e s3 r "projr x2" w f ok] n by simp_all
  have "s' = s1 \<or> s' = s2 \<or> s' = s3 \<or> s' = s4"
    using assms c m i n by (auto simp: build_def split: sum.splits)
  then show ?thesis using p by auto
qed

lemma plugin_keeps_coherent:
  assumes coh: "coherent s"
    and live: "\<forall>(n, a) \<in> set (plugin_cache s). a < next_addr s"
    and held: "map_of (install_cache s) (name (servlets s r)) = Some r"
  shows "coherent (snd (plugin e s r cache w fs ws))"
proof -
  obtain res s' where p: "plugin e s r cache w fs ws = (res, s')"
    by (cases "plugin e s r cache w fs ws")
  from p have "coherent s'"
  proof (cases rule: plugin_cases)
    case (oauth_fails err)
    then show ?thesis
      using fetch_oauth_Inr(1,2,7)[OF oauth_fails(1)] coh by (simp add: coherent_def)
  next
    case (cached oa s1 x)
    then show ?thesis
      using fetch_oauth_Inr(1,2,7)[OF cached(1)] cache_lookup_Some(1)[OF cached(2)] coh
      by (simp add: coherent_def)
  next
    case (built oa s1 s2)
    note f = fetch_oauth_Inr[OF built(1)]
    have ic2: "install_cache s2 = install_cache s"
      using install_cache_frame(2)[of e s1 "name (servlets s r)"
          "cache_ok cache (PyBool True) fs ws"] built(2) f(7) by simp
    have pl2: "plugins s2 = plugins s" "next_addr s2 = next_addr s" "servlets s2 = servlets s"
      using cache_lookup_res(4,5,1)[OF built(2)] f by simp_all
    have sub: "set (plugin_cache s2) \<subseteq> set (plugin_cache s)"
      using cache_lookup_None[OF built(2)] f(1) by (auto simp: AList.delete_eq)
    have ic': "install_cache s' = install_cache s"
      using build_install_cache[OF built(3)] ic2 by simp
    show ?thesis
    proof (cases res)
      case (Inl err)
      with built(3) have "plugin_cache s' = plugin_cache s2" "plugins s' = plugins s2"
        using build_Inl by blast+
      then show ?thesis using coh sub ic' pl2 by (auto simp: coherent_def)
    next
      case (Inr q)
      note b = build_Inr_facts[OF built(3)[unfolded Inr]]
      show ?thesis
        unfolding coherent_def
      proof (clarify)
        fix n a assume m: "(n, a) \<in> set (plugin_cache s')"
        have "(n, a) = (name (servlets s r), q) \<or> (n, a) \<in> set (plugin_cache s2)"
        proof (cases "cache_ok cache (PyBool True) fs ws")
          case True
          with m b(7) pl2(3)
          have "(n, a) \<in> set (AList.update (name (servlets s r)) q (plugin_cache s2))"
            by simp
          then show ?thesis by (rule update_entries)
        next
          case False
          with m b(7) show ?thesis by simp
        qed
        then show "map_of (install_cache s') n = Some (ip_install (plugins s' a))"
        proof
          assume "(n, a) = (name (servlets s r), q)"
          then show ?thesis using held ic' b(4) by simp
        next
          assume "(n, a) \<in> set (plugin_cache s2)"
          then have i: "(n, a) \<in> set (plugin_cache s)" using sub by auto
          with live have "a < next_addr s" by auto
          then have "a \<noteq> q" using b(1) pl2(2) by simp
          then have "plugins s' a = plugins s a" using b(3) pl2(1) by simp
          then show ?thesis using coh i ic' by (auto simp: coherent_def)
        qed
      qed
    qed
  qed
  with p show ?thesis by simp
qed

subsection \<open>The OAuth fetch on the fast path\<close>

text \<open>
  C1, evaluated: the record has \<^verbatim>\<open>has_oauth\<close>, the first call built and cached the instance
  3 with one OAuth request and one content request. The second call, one second later,
  returns the cached instance 3, and the log of requests has grown by a second OAuth
  request: the fast path performs network I/O. When that request cannot be made, the call
  raises, although the unexpired instance is in the cache.
\<close>

theorem plugin_fast_path_refetches_oauth:
  "plugin_cache (used_client True (Some 1)) = [(''img'', 3)] \<and>
   requests (used_client True (Some 1)) =
     [Get_oauth ''~/default'' ''img'', Get_content ''sha256-img''] \<and>
   fst (plugin (gateway 1000000 200 ''wasm'' []) (used_client True (Some 1)) 0
          True PyNone None None) = Inr 3 \<and>
   requests (snd (plugin (gateway 1000000 200 ''wasm'' []) (used_client True (Some 1)) 0
          True PyNone None None)) =
     [Get_oauth ''~/default'' ''img'', Get_content ''sha256-img'',
      Get_oauth ''~/default'' ''img''] \<and>
   fst (plugin ((gateway 1000000 200 ''wasm'' [])\<lparr>oauth_response := \<lambda>p n. Transport_failure\<rparr>)
          (used_client True (Some 1)) 0 True PyNone None None) = Inl TransportError"
  by (simp add: fixture_defs plugin_defs)

end
